theory Spec2Isabelle
  imports Main "HOL-Library.Product_Lexorder"
begin

section \<open>The icon generator \<^verbatim>\<open>src-tauri/icons/generate.py\<close>\<close>

text \<open>
  The script is sequential glue over two libraries: Python's \<^verbatim>\<open>os\<close> module and Pillow
  (\<^verbatim>\<open>PIL.Image\<close>). The script itself is embedded statement by statement. The library calls
  it makes are embedded by their documented behaviour, with everything numeric (decoding,
  colour conversion, resampling) left as a parameter of the environment record \<open>env\<close>.
  Effects are explicit: a \<open>world\<close> holds the file system, the store of image objects and
  the lines printed to standard output, and every statement maps a world to a result and
  the next world. A raised exception is the result \<open>Inl e\<close>.
\<close>

subsection \<open>Exceptions\<close>

text \<open>
  The values of \<open>exn\<close> are instances of Python's class \<^verbatim>\<open>Exception\<close>, which is what a
  failing library call raises. Interrupts delivered asynchronously (\<^verbatim>\<open>KeyboardInterrupt\<close>)
  are outside the model.
\<close>

datatype exn =
    FileNotFoundError
  | FileExistsError
  | IsADirectoryError
  | PermissionError
  | OSError
  | UnidentifiedImageError
  | ValueError
  | KeyError string
  | IndexError
  | MemoryError

fun is_OSError :: "exn \<Rightarrow> bool" where
  "is_OSError FileNotFoundError = True"
| "is_OSError FileExistsError = True"
| "is_OSError IsADirectoryError = True"
| "is_OSError PermissionError = True"
| "is_OSError OSError = True"
| "is_OSError _ = False"

subsection \<open>Images, files and the world\<close>

datatype mode = Bilevel | L | P | RGB | RGBA

datatype resampling = NEAREST | BILINEAR | BICUBIC | LANCZOS

record image =
  width :: int
  height :: int
  mode :: mode
  pixels :: "nat list"

definition valid_image :: "image \<Rightarrow> bool" where
  "valid_image im \<longleftrightarrow> 1 \<le> width im \<and> 1 \<le> height im"

definition image_size :: "image \<Rightarrow> int \<times> int" where
  "image_size im = (width im, height im)"

text \<open>
  A path is the list of its components below the root. What a file holds is kept
  abstractly: the encoded image, or the frames of a container, not the bytes.
\<close>

type_synonym path = "string list"

datatype file_content =
    Raw "nat list"
  | Png image
  | Ico "image list"
  | Icns image

datatype format = PNG | ICO | ICNS

type_synonym ref = nat

record world =
  files :: "path \<rightharpoonup> file_content"
  dirs :: "path set"
  heap :: "image list"
  stdout :: "string list"

text \<open>
  What the run takes from outside the script: where the repository is checked out, the
  numeric kernels of Pillow, whether Pillow can write ICNS, and the error (if any) the
  operating system raises when a path is created or opened for writing.
\<close>

record env =
  checkout :: path
  decode :: "file_content \<Rightarrow> exn + image"
  convert_pixels :: "mode \<Rightarrow> image \<Rightarrow> nat list"
  resample :: "resampling \<Rightarrow> image \<Rightarrow> int \<times> int \<Rightarrow> nat list"
  thumbnail :: "image \<Rightarrow> int \<times> int \<Rightarrow> image"
  icns_supported :: bool
  write_error :: "path \<Rightarrow> exn option"

type_synonym 'a io = "world \<Rightarrow> (exn + 'a) \<times> world"

definition bind_io :: "'a io \<Rightarrow> ('a \<Rightarrow> 'b io) \<Rightarrow> 'b io" where
  "bind_io m f w = (case m w of (Inl e, w') \<Rightarrow> (Inl e, w') | (Inr a, w') \<Rightarrow> f a w')"

definition raise :: "exn \<Rightarrow> 'a io" where
  "raise e w = (Inl e, w)"

text \<open>A \<^verbatim>\<open>for\<close> loop over a list, and a list comprehension whose body has effects.\<close>

fun for_each :: "('a \<Rightarrow> unit io) \<Rightarrow> 'a list \<Rightarrow> unit io" where
  "for_each body [] w = (Inr (), w)"
| "for_each body (x # xs) w =
     (case body x w of (Inl e, w') \<Rightarrow> (Inl e, w') | (Inr _, w') \<Rightarrow> for_each body xs w')"

fun comprehension :: "('a \<Rightarrow> 'b io) \<Rightarrow> 'a list \<Rightarrow> 'b list io" where
  "comprehension body [] w = (Inr [], w)"
| "comprehension body (x # xs) w =
     (case body x w of
        (Inl e, w') \<Rightarrow> (Inl e, w')
      | (Inr y, w') \<Rightarrow>
          (case comprehension body xs w' of
             (Inl e, w'') \<Rightarrow> (Inl e, w'')
           | (Inr ys, w'') \<Rightarrow> (Inr (y # ys), w'')))"

subsection \<open>Builtins: \<^verbatim>\<open>print\<close>, \<^verbatim>\<open>str\<close>, \<^verbatim>\<open>', '.join\<close>\<close>

definition print :: "string \<Rightarrow> unit io" where
  "print s w = (Inr (), w\<lparr>stdout := stdout w @ [s]\<rparr>)"

function str_nat :: "nat \<Rightarrow> string" where
  "str_nat n =
     (if n < 10 then [''0123456789'' ! n]
      else str_nat (n div 10) @ [''0123456789'' ! (n mod 10)])"
  by pat_completeness auto
termination
  by (relation "measure id") auto

definition str :: "int \<Rightarrow> string" where
  "str i = (if i < 0 then CHR ''-'' # str_nat (nat (- i)) else str_nat (nat i))"

fun join_str :: "string \<Rightarrow> string list \<Rightarrow> string" where
  "join_str sep [] = []"
| "join_str sep [s] = s"
| "join_str sep (s # t # ss) = s @ sep @ join_str sep (t # ss)"

subsection \<open>\<^verbatim>\<open>os.path\<close> and \<^verbatim>\<open>os\<close>\<close>

text \<open>
  \<open>normpath\<close> collapses \<^verbatim>\<open>..\<close>, \<^verbatim>\<open>.\<close> and empty components. The file system is keyed by
  normalised paths and resolves every path it is given the same way (there are no
  symbolic links in the model). Above the root, \<^verbatim>\<open>..\<close> stays at the root.
\<close>

definition norm_step :: "path \<Rightarrow> string \<Rightarrow> path" where
  "norm_step acc c =
     (if c = ''..'' then butlast acc else if c = ''.'' \<or> c = [] then acc else acc @ [c])"

definition normpath :: "path \<Rightarrow> path" where
  "normpath p = foldl norm_step [] p"

definition abspath :: "path \<Rightarrow> path" where
  "abspath p = normpath p"

definition dirname :: "path \<Rightarrow> path" where
  "dirname p = butlast p"

definition os_path_join :: "path \<Rightarrow> string list \<Rightarrow> path" where
  "os_path_join a bs = a @ bs"

text \<open>The text of a path, as \<^verbatim>\<open>print\<close> shows it.\<close>

definition path_str :: "path \<Rightarrow> string" where
  "path_str p = concat (map (\<lambda>c. CHR ''/'' # c) p)"

definition isdir :: "world \<Rightarrow> path \<Rightarrow> bool" where
  "isdir w p \<longleftrightarrow> normpath p = [] \<or> normpath p \<in> dirs w"

definition isfile :: "world \<Rightarrow> path \<Rightarrow> bool" where
  "isfile w p \<longleftrightarrow> files w (normpath p) \<noteq> None"

definition os_path_exists :: "world \<Rightarrow> path \<Rightarrow> bool" where
  "os_path_exists w p \<longleftrightarrow> isdir w p \<or> isfile w p"

definition mkdir :: "env \<Rightarrow> path \<Rightarrow> unit io" where
  "mkdir E name w =
     (if os_path_exists w name then (Inl FileExistsError, w)
      else if \<not> isdir w (dirname (normpath name)) then (Inl FileNotFoundError, w)
      else (case write_error E (normpath name) of
              Some e \<Rightarrow> (Inl e, w)
            | None \<Rightarrow> (Inr (), w\<lparr>dirs := insert (normpath name) (dirs w)\<rparr>)))"

text \<open>
  The last statement of \<^verbatim>\<open>os.makedirs\<close>:
  \<^verbatim>\<open>try: mkdir(name, mode)
  except OSError:
      if not exist_ok or not path.isdir(name): raise\<close>
\<close>

definition mkdir_leaf :: "env \<Rightarrow> path \<Rightarrow> bool \<Rightarrow> unit io" where
  "mkdir_leaf E name exist_ok w =
     (case mkdir E name w of
        (Inl e, w') \<Rightarrow>
          (if is_OSError e \<and> \<not> (\<not> exist_ok \<or> \<not> isdir w' name) then (Inr (), w')
           else (Inl e, w'))
      | (Inr u, w') \<Rightarrow> (Inr u, w'))"

text \<open>
  \<^verbatim>\<open>os.makedirs(name, exist_ok)\<close>, by recursion on the reversed components: the first
  element is \<^verbatim>\<open>tail\<close>, the rest is \<^verbatim>\<open>head\<close> reversed.
  \<^verbatim>\<open>head, tail = path.split(name)
  if head and tail and not path.exists(head):
      try: makedirs(head, exist_ok=exist_ok)
      except FileExistsError: pass
      if tail == curdir: return
  ... mkdir(name, mode) ...\<close>
\<close>

fun makedirs_rev :: "env \<Rightarrow> string list \<Rightarrow> bool \<Rightarrow> unit io" where
  "makedirs_rev E [] exist_ok w = mkdir_leaf E [] exist_ok w"
| "makedirs_rev E (tail # rhead) exist_ok w =
     (if tail \<noteq> [] \<and> \<not> os_path_exists w (rev rhead) then
        (case makedirs_rev E rhead exist_ok w of
           (Inl e, w') \<Rightarrow>
             (if e = FileExistsError then
                (if tail = ''.'' then (Inr (), w')
                 else mkdir_leaf E (rev (tail # rhead)) exist_ok w')
              else (Inl e, w'))
         | (Inr _, w') \<Rightarrow>
             (if tail = ''.'' then (Inr (), w')
              else mkdir_leaf E (rev (tail # rhead)) exist_ok w'))
      else mkdir_leaf E (rev (tail # rhead)) exist_ok w)"

definition makedirs :: "env \<Rightarrow> path \<Rightarrow> bool \<Rightarrow> unit io" where
  "makedirs E name exist_ok = makedirs_rev E (rev name) exist_ok"

text \<open>Opening a path for writing and storing the content: the file is replaced.\<close>

definition write_file :: "env \<Rightarrow> path \<Rightarrow> file_content \<Rightarrow> unit io" where
  "write_file E fp c w =
     (if isdir w fp then (Inl IsADirectoryError, w)
      else if \<not> isdir w (dirname (normpath fp)) then (Inl FileNotFoundError, w)
      else (case write_error E (normpath fp) of
              Some e \<Rightarrow> (Inl e, w)
            | None \<Rightarrow> (Inr (), w\<lparr>files := (files w)(normpath fp \<mapsto> c)\<rparr>)))"

subsection \<open>Pillow\<close>

definition new_image :: "image \<Rightarrow> ref io" where
  "new_image im w = (Inr (length (heap w)), w\<lparr>heap := heap w @ [im]\<rparr>)"

text \<open>\<^verbatim>\<open>Image.open(fp)\<close>, with the pixel data loaded.\<close>

definition Image_open :: "env \<Rightarrow> path \<Rightarrow> ref io" where
  "Image_open E fp w =
     (if isdir w fp then (Inl IsADirectoryError, w)
      else (case files w (normpath fp) of
              None \<Rightarrow> (Inl FileNotFoundError, w)
            | Some c \<Rightarrow>
                (case decode E c of
                   Inl e \<Rightarrow> (Inl e, w)
                 | Inr im \<Rightarrow> new_image im w)))"

text \<open>\<^verbatim>\<open>im.convert(mode)\<close>: a new image of the same size in the given mode.\<close>

definition Image_convert :: "env \<Rightarrow> ref \<Rightarrow> mode \<Rightarrow> ref io" where
  "Image_convert E r m w =
     new_image ((heap w ! r)\<lparr>mode := m, pixels := convert_pixels E m (heap w ! r)\<rparr>) w"

text \<open>
  \<^verbatim>\<open>im.resize(size, resample)\<close>: ``Returns a resized copy of this image''. A resize to
  the image's own size is a copy; otherwise a size below one pixel is refused
  (\<^verbatim>\<open>ValueError: height and width must be > 0\<close>), and the modes \<^verbatim>\<open>1\<close> and \<^verbatim>\<open>P\<close> are always
  resampled with \<^verbatim>\<open>NEAREST\<close>.
  \<^verbatim>\<open>if self.size == size and box == (0, 0) + self.size:
      return self.copy()
  if self.mode in ("1", "P"):
      resample = Resampling.NEAREST
  ...
  return self._new(self.im.resize(size, resample, box))\<close>
\<close>

definition resized :: "env \<Rightarrow> image \<Rightarrow> int \<times> int \<Rightarrow> resampling \<Rightarrow> image" where
  "resized E im sz rs =
     (if image_size im = sz then im
      else \<lparr>width = fst sz, height = snd sz, mode = mode im,
            pixels = resample E (if mode im = Bilevel \<or> mode im = P then NEAREST else rs) im sz\<rparr>)"

definition Image_resize :: "env \<Rightarrow> ref \<Rightarrow> int \<times> int \<Rightarrow> resampling \<Rightarrow> ref io" where
  "Image_resize E r sz rs w =
     (if image_size (heap w ! r) = sz then new_image (heap w ! r) w
      else if fst sz < 1 \<or> snd sz < 1 then (Inl ValueError, w)
      else new_image (resized E (heap w ! r) sz rs) w)"

text \<open>
  The frames Pillow's ICO writer stores (\<^verbatim>\<open>IcoImagePlugin._save\<close>). Its documentation of
  the \<^verbatim>\<open>sizes\<close> parameter: ``Any sizes bigger than the original size or 256 will be
  ignored''; of \<^verbatim>\<open>append_images\<close>: ``A list of images to replace the scaled down versions
  of the image. The order of the images does not matter, as their use is determined by
  the size of each image.''
  \<^verbatim>\<open>provided_ims = [im] + append_images
  width, height = im.size
  for size in sorted(set(sizes)):
      if size[0] > width or size[1] > height or size[0] > 256 or size[1] > 256:
          continue
      for provided_im in provided_ims:
          if provided_im.size != size: continue
          frames.append(provided_im)
          break
      else:
          frame = provided_im.copy()
          frame.thumbnail(size, LANCZOS)
          frames.append(frame)\<close>
\<close>

definition ico_frame :: "env \<Rightarrow> image \<Rightarrow> image list \<Rightarrow> int \<times> int \<Rightarrow> image list" where
  "ico_frame E im provided_ims sz =
     (if fst sz > width im \<or> snd sz > height im \<or> fst sz > 256 \<or> snd sz > 256 then []
      else (case find (\<lambda>provided_im. image_size provided_im = sz) provided_ims of
              Some provided_im \<Rightarrow> [provided_im]
            | None \<Rightarrow> [thumbnail E (last provided_ims) sz]))"

definition ico_frames :: "env \<Rightarrow> image \<Rightarrow> (int \<times> int) list \<Rightarrow> image list \<Rightarrow> image list" where
  "ico_frames E im sizes append_images =
     concat (map (ico_frame E im (im # append_images)) (sort (remdups sizes)))"

definition default_ico_sizes :: "(int \<times> int) list" where
  "default_ico_sizes =
     [(16, 16), (24, 24), (32, 32), (48, 48), (64, 64), (128, 128), (256, 256)]"

text \<open>
  \<^verbatim>\<open>im.save(fp, format, sizes, append_images)\<close>. The writer is looked up first
  (\<^verbatim>\<open>KeyError\<close> when the format has none), then the file is opened and written.
\<close>

definition format_name :: "format \<Rightarrow> string" where
  "format_name f = (case f of PNG \<Rightarrow> ''PNG'' | ICO \<Rightarrow> ''ICO'' | ICNS \<Rightarrow> ''ICNS'')"

definition encode ::
  "env \<Rightarrow> format \<Rightarrow> image \<Rightarrow> (int \<times> int) list option \<Rightarrow> image list \<Rightarrow> file_content" where
  "encode E f im sizes append_images =
     (case f of
        PNG \<Rightarrow> Png im
      | ICO \<Rightarrow>
          Ico (ico_frames E im (case sizes of None \<Rightarrow> default_ico_sizes | Some ss \<Rightarrow> ss)
                 append_images)
      | ICNS \<Rightarrow> Icns im)"

definition Image_save ::
  "env \<Rightarrow> ref \<Rightarrow> path \<Rightarrow> format \<Rightarrow> (int \<times> int) list option \<Rightarrow> ref list \<Rightarrow> unit io" where
  "Image_save E r fp f sizes append_images w =
     (if f = ICNS \<and> \<not> icns_supported E then (Inl (KeyError (format_name f)), w)
      else write_file E fp (encode E f (heap w ! r) sizes (map (\<lambda>a. heap w ! a) append_images)) w)"

subsection \<open>The script\<close>

definition script_file :: "env \<Rightarrow> path" where
  "script_file E = checkout E @ [''src-tauri'', ''icons'', ''generate.py'']"

definition SCRIPT_DIR :: "env \<Rightarrow> path" where
  "SCRIPT_DIR E = dirname (abspath (script_file E))"

definition SOURCE :: "env \<Rightarrow> path" where
  "SOURCE E = os_path_join (SCRIPT_DIR E) [''..'', ''..'', ''..'', ''logo.png'']"

definition PNG_SIZES :: "(string \<times> int) list" where
  "PNG_SIZES =
     [(''32x32.png'', 32), (''128x128.png'', 128), (''128x128@2x.png'', 256), (''icon.png'', 512)]"

definition FRONTEND_ICON :: "env \<Rightarrow> path" where
  "FRONTEND_ICON E = os_path_join (SCRIPT_DIR E) [''..'', ''..'', ''src'', ''assets'', ''icon.png'']"

definition resize :: "env \<Rightarrow> ref \<Rightarrow> int \<Rightarrow> ref io" where
  "resize E source_img sz = Image_resize E source_img (sz, sz) LANCZOS"

text \<open>The four blocks of \<^verbatim>\<open>main\<close>, as its comments divide it.\<close>

definition generate_pngs :: "env \<Rightarrow> ref \<Rightarrow> unit io" where
  "generate_pngs E source =
     for_each (\<lambda>(filename, sz).
        bind_io (resize E source sz) (\<lambda>img.
        bind_io (Image_save E img (os_path_join (SCRIPT_DIR E) [filename]) PNG None []) (\<lambda>_.
        print (''  '' @ filename @ '' ('' @ str sz @ ''x'' @ str sz @ '')''))))
       PNG_SIZES"

definition generate_frontend_asset :: "env \<Rightarrow> ref \<Rightarrow> unit io" where
  "generate_frontend_asset E source =
     bind_io (resize E source 256) (\<lambda>img.
     bind_io (makedirs E (dirname (FRONTEND_ICON E)) True) (\<lambda>_.
     bind_io (Image_save E img (FRONTEND_ICON E) PNG None []) (\<lambda>_.
     print ''  src/assets/icon.png (256x256)'')))"

definition ico_sizes :: "int list" where
  "ico_sizes = [16, 24, 32, 48, 64, 128, 256]"

definition generate_ico :: "env \<Rightarrow> ref \<Rightarrow> unit io" where
  "generate_ico E source =
     bind_io (comprehension (\<lambda>s. resize E source s) ico_sizes) (\<lambda>ico_images.
     (case ico_images of
        [] \<Rightarrow> raise IndexError
      | first # rest \<Rightarrow>
          bind_io (Image_save E first (os_path_join (SCRIPT_DIR E) [''icon.ico'']) ICO
                     (Some (map (\<lambda>s. (s, s)) ico_sizes)) rest) (\<lambda>_.
          print (''  icon.ico ('' @ join_str '', '' (map str ico_sizes) @ '')''))))"

text \<open>\<^verbatim>\<open>try: ... except Exception: ...\<close>: every value of \<open>exn\<close> is caught.\<close>

definition generate_icns :: "env \<Rightarrow> ref \<Rightarrow> unit io" where
  "generate_icns E source w =
     (case Image_save E source (os_path_join (SCRIPT_DIR E) [''icon.icns'']) ICNS None [] w of
        (Inl e, w') \<Rightarrow> print ''  Warning: Cannot generate .icns (Pillow ICNS support missing)'' w'
      | (Inr _, w') \<Rightarrow> print ''  icon.icns'' w')"

definition load_source :: "env \<Rightarrow> ref io" where
  "load_source E =
     bind_io (Image_open E (SOURCE E)) (\<lambda>opened. Image_convert E opened RGBA)"

definition main :: "env \<Rightarrow> unit io" where
  "main E w =
     (if \<not> os_path_exists w (SOURCE E) then
        print (''ERROR: Source not found: '' @ path_str (SOURCE E)) w
      else
        bind_io (load_source E) (\<lambda>source.
        bind_io (\<lambda>w1. print (''Source: '' @ path_str (SOURCE E) @ '' (''
                         @ str (width (heap w1 ! source)) @ ''x''
                         @ str (height (heap w1 ! source)) @ '')'') w1) (\<lambda>_.
        bind_io (print '''') (\<lambda>_.
        bind_io (generate_pngs E source) (\<lambda>_.
        bind_io (generate_frontend_asset E source) (\<lambda>_.
        bind_io (generate_ico E source) (\<lambda>_.
        bind_io (generate_icns E source) (\<lambda>_.
        bind_io (print '''') (\<lambda>_.
        print ''Done. All icons generated from logo.png'')))))))) w)"

subsection \<open>Vocabulary of the statements\<close>

text \<open>
  The image \<^verbatim>\<open>main\<close> holds as \<^verbatim>\<open>source\<close> once the file has decoded to \<open>im\<close>, and the
  value \<^verbatim>\<open>resize\<close> computes for a source image and an edge length.
\<close>

definition loaded :: "env \<Rightarrow> image \<Rightarrow> image" where
  "loaded E im = im\<lparr>mode := RGBA, pixels := convert_pixels E RGBA im\<rparr>"

definition scaled :: "env \<Rightarrow> image \<Rightarrow> int \<Rightarrow> image" where
  "scaled E im n = resized E im (n, n) LANCZOS"

text \<open>The places in the file system that the paths of the script resolve to.\<close>

definition source_path :: "env \<Rightarrow> path" where
  "source_path E = normpath (SOURCE E)"

definition icon_path :: "env \<Rightarrow> string \<Rightarrow> path" where
  "icon_path E f = normpath (os_path_join (SCRIPT_DIR E) [f])"

definition frontend_path :: "env \<Rightarrow> path" where
  "frontend_path E = normpath (FRONTEND_ICON E)"

definition assets_dir :: "env \<Rightarrow> path" where
  "assets_dir E = normpath (dirname (FRONTEND_ICON E))"

definition src_dir :: "env \<Rightarrow> path" where
  "src_dir E = dirname (assets_dir E)"

text \<open>The first line \<^verbatim>\<open>main\<close> prints for a source image.\<close>

definition source_line :: "env \<Rightarrow> image \<Rightarrow> string" where
  "source_line E im =
     ''Source: '' @ path_str (SOURCE E) @ '' ('' @ str (width im) @ ''x''
       @ str (height im) @ '')''"

text \<open>
  A file can be created at a resolved path: the path is not a directory, its parent is
  one, and the operating system raises no error.
\<close>

definition writable :: "env \<Rightarrow> world \<Rightarrow> path \<Rightarrow> bool" where
  "writable E w p \<longleftrightarrow>
     p \<noteq> [] \<and> p \<notin> dirs w \<and> (butlast p = [] \<or> butlast p \<in> dirs w) \<and>
     write_error E p = None"

text \<open>
  The environment in which every step before the ICNS step succeeds: the source file
  decodes to the non-empty image \<open>im\<close>, the four PNG files and \<^verbatim>\<open>icon.ico\<close> can be
  created in the script's directory, and \<^verbatim>\<open>src/assets\<close> under the checkout exists or can
  be created, as can the icon in it.
\<close>

definition ready :: "env \<Rightarrow> world \<Rightarrow> image \<Rightarrow> bool" where
  "ready E w im \<longleftrightarrow>
     (\<exists>c. files w (source_path E) = Some c \<and> decode E c = Inr im) \<and>
     valid_image im \<and>
     source_path E \<notin> dirs w \<and>
     (\<forall>f\<in>set (map fst PNG_SIZES @ [''icon.ico'']). writable E w (icon_path E f)) \<and>
     isdir w (checkout E) \<and>
     files w (src_dir E) = None \<and> files w (assets_dir E) = None \<and>
     write_error E (src_dir E) = None \<and> write_error E (assets_dir E) = None \<and>
     frontend_path E \<notin> dirs w \<and> write_error E (frontend_path E) = None"

text \<open>
  The world \<^verbatim>\<open>main\<close> has reached when it enters the ICNS step, starting from \<open>w\<close> with
  a source file that decodes to \<open>im\<close>.
\<close>

definition world_before_icns :: "env \<Rightarrow> image \<Rightarrow> world \<Rightarrow> world" where
  "world_before_icns E im w =
     w\<lparr>files := (files w)
          (icon_path E ''32x32.png'' \<mapsto> Png (scaled E (loaded E im) 32),
           icon_path E ''128x128.png'' \<mapsto> Png (scaled E (loaded E im) 128),
           icon_path E ''128x128@2x.png'' \<mapsto> Png (scaled E (loaded E im) 256),
           icon_path E ''icon.png'' \<mapsto> Png (scaled E (loaded E im) 512),
           frontend_path E \<mapsto> Png (scaled E (loaded E im) 256),
           icon_path E ''icon.ico'' \<mapsto> Ico [scaled E (loaded E im) 16]),
       dirs := insert (assets_dir E) (insert (src_dir E) (dirs w)),
       heap := heap w @ [im, loaded E im] @
         map (scaled E (loaded E im)) ([32, 128, 256, 512] @ [256] @ ico_sizes),
       stdout := stdout w @
         [''Source: '' @ path_str (SOURCE E) @ '' ('' @ str (width im) @ ''x''
            @ str (height im) @ '')'',
          '''',
          ''  32x32.png (32x32)'', ''  128x128.png (128x128)'',
          ''  128x128@2x.png (256x256)'', ''  icon.png (512x512)'',
          ''  src/assets/icon.png (256x256)'',
          ''  icon.ico (16, 24, 32, 48, 64, 128, 256)'']\<rparr>"

subsection \<open>A concrete environment\<close>

text \<open>
  A checkout at \<^verbatim>\<open>/home/installer\<close> with the logo one directory above it, an environment
  whose decoder accepts stored PNG files only, and the same world without the logo.
\<close>

definition demo_logo :: image where
  "demo_logo = \<lparr>width = 1024, height = 1024, mode = RGBA, pixels = [255, 0, 0, 255]\<rparr>"

definition demo_env :: env where
  "demo_env =
     \<lparr>checkout = [''home'', ''installer''],
      decode = (\<lambda>c. case c of Png im \<Rightarrow> Inr im | _ \<Rightarrow> Inl UnidentifiedImageError),
      convert_pixels = (\<lambda>m im. pixels im),
      resample = (\<lambda>rs im sz. pixels im),
      thumbnail = (\<lambda>im sz. im\<lparr>width := fst sz, height := snd sz\<rparr>),
      icns_supported = True,
      write_error = (\<lambda>p. None)\<rparr>"

definition demo_dirs :: "path set" where
  "demo_dirs =
     {[''home''], [''home'', ''installer''], [''home'', ''installer'', ''src-tauri''],
      [''home'', ''installer'', ''src-tauri'', ''icons'']}"

definition demo_world :: world where
  "demo_world =
     \<lparr>files = [[''home'', ''logo.png''] \<mapsto> Png demo_logo],
      dirs = demo_dirs, heap = [], stdout = []\<rparr>"

definition bare_world :: world where
  "bare_world = \<lparr>files = Map.empty, dirs = demo_dirs, heap = [], stdout = []\<rparr>"

text \<open>The same world once an image is in the store.\<close>

definition heap_world :: world where
  "heap_world = demo_world\<lparr>heap := [demo_logo]\<rparr>"

text \<open>
  Variations: a source of 10 by 7 pixels, a source file that is not an image, a Pillow
  without ICNS, and operating systems that refuse \<^verbatim>\<open>icon.icns\<close> or \<^verbatim>\<open>icon.ico\<close>.
\<close>

definition tiny_logo :: image where
  "tiny_logo = \<lparr>width = 10, height = 7, mode = RGB, pixels = [1, 2, 3]\<rparr>"

definition tiny_world :: world where
  "tiny_world = demo_world\<lparr>files := [[''home'', ''logo.png''] \<mapsto> Png tiny_logo]\<rparr>"

definition no_icns_env :: env where
  "no_icns_env = demo_env\<lparr>icns_supported := False\<rparr>"

definition full_disk_env :: env where
  "full_disk_env = demo_env\<lparr>write_error :=
     (\<lambda>p. if p = [''home'', ''installer'', ''src-tauri'', ''icons'', ''icon.icns'']
          then Some OSError else None)\<rparr>"

definition corrupt_world :: world where
  "corrupt_world = demo_world\<lparr>files := [[''home'', ''logo.png''] \<mapsto> Raw [0, 1, 2]]\<rparr>"

definition locked_env :: env where
  "locked_env = demo_env\<lparr>write_error :=
     (\<lambda>p. if p = [''home'', ''installer'', ''src-tauri'', ''icons'', ''icon.ico'']
          then Some PermissionError else None)\<rparr>"

definition readonly_env :: env where
  "readonly_env = demo_env\<lparr>write_error := (\<lambda>p. Some PermissionError)\<rparr>"

text \<open>The components \<open>normpath\<close> removes.\<close>

definition special :: "string set" where
  "special = {''..'', ''.'', []}"

section \<open>Paths\<close>

lemma norm_step_plain: "c \<notin> special \<Longrightarrow> norm_step acc c = acc @ [c]"
  by (simp add: norm_step_def special_def)

lemma foldl_norm_step_plain:
  "\<forall>c\<in>set p. c \<notin> special \<Longrightarrow> foldl norm_step acc p = acc @ p"
  by (induction p arbitrary: acc) (simp_all add: norm_step_plain)

lemma norm_step_keeps_plain:
  "\<forall>c\<in>set acc. c \<notin> special \<Longrightarrow> \<forall>c\<in>set (norm_step acc d). c \<notin> special"
  by (auto simp: norm_step_def special_def dest: in_set_butlastD)

lemma foldl_norm_step_keeps_plain:
  "\<forall>c\<in>set acc. c \<notin> special \<Longrightarrow> \<forall>c\<in>set (foldl norm_step acc p). c \<notin> special"
proof (induction p arbitrary: acc)
  case Nil
  then show ?case by simp
next
  case (Cons d p)
  from norm_step_keeps_plain [OF Cons.prems]
  have "\<forall>c\<in>set (norm_step acc d). c \<notin> special" .
  from Cons.IH [OF this] show ?case by simp
qed

lemma normpath_plain: "\<forall>c\<in>set (normpath p). c \<notin> special"
  unfolding normpath_def by (rule foldl_norm_step_keeps_plain) simp

lemma normpath_idem: "normpath (normpath p) = normpath p"
  using foldl_norm_step_plain [OF normpath_plain, of "[]" p] by (simp add: normpath_def)

lemma normpath_append: "normpath (normpath p @ q) = foldl norm_step (normpath p) q"
  using foldl_norm_step_plain [OF normpath_plain, of "[]" p] by (simp add: normpath_def)

lemma normpath_append_raw: "normpath (p @ q) = foldl norm_step (normpath p) q"
  by (simp add: normpath_def)

lemma SCRIPT_DIR_eq: "SCRIPT_DIR E = normpath (checkout E) @ [''src-tauri'', ''icons'']"
  by (simp add: SCRIPT_DIR_def dirname_def abspath_def script_file_def normpath_append_raw
      norm_step_def butlast_append)

lemma normpath_SCRIPT_DIR:
  "normpath (SCRIPT_DIR E) = normpath (checkout E) @ [''src-tauri'', ''icons'']"
  by (simp add: SCRIPT_DIR_eq normpath_append norm_step_def)

lemma normpath_script_file:
  "f \<notin> special \<Longrightarrow>
   normpath (os_path_join (SCRIPT_DIR E) [f]) =
   normpath (checkout E) @ [''src-tauri'', ''icons'', f]"
  by (simp add: SCRIPT_DIR_eq os_path_join_def normpath_append norm_step_def special_def)

lemma normpath_SOURCE:
  "normpath (SOURCE E) = butlast (normpath (checkout E)) @ [''logo.png'']"
  by (simp add: SOURCE_def SCRIPT_DIR_eq os_path_join_def normpath_append norm_step_def
      butlast_append)

lemma normpath_FRONTEND_ICON:
  "normpath (FRONTEND_ICON E) = normpath (checkout E) @ [''src'', ''assets'', ''icon.png'']"
  by (simp add: FRONTEND_ICON_def SCRIPT_DIR_eq os_path_join_def normpath_append norm_step_def
      butlast_append)

lemma normpath_Nil [simp]: "normpath [] = []"
  by (simp add: normpath_def)

lemma normpath_of_plain: "\<forall>c\<in>set p. c \<notin> special \<Longrightarrow> normpath p = p"
  using foldl_norm_step_plain [of p "[]"] by (simp add: normpath_def)

lemma normpath_butlast: "normpath (butlast (normpath p)) = butlast (normpath p)"
  by (rule normpath_of_plain) (meson in_set_butlastD normpath_plain)

lemma source_path_eq: "source_path E = butlast (normpath (checkout E)) @ [''logo.png'']"
  by (simp add: source_path_def normpath_SOURCE)

lemma icon_path_eq:
  "f \<notin> special \<Longrightarrow> icon_path E f = normpath (checkout E) @ [''src-tauri'', ''icons'', f]"
  by (simp add: icon_path_def normpath_script_file)

lemma icon_path_in_script_dir: "f \<notin> special \<Longrightarrow> icon_path E f = SCRIPT_DIR E @ [f]"
  by (simp add: icon_path_eq SCRIPT_DIR_eq)

lemma frontend_path_eq:
  "frontend_path E = normpath (checkout E) @ [''src'', ''assets'', ''icon.png'']"
  by (simp add: frontend_path_def normpath_FRONTEND_ICON)

lemma assets_dir_eq: "assets_dir E = normpath (checkout E) @ [''src'', ''assets'']"
  by (simp add: assets_dir_def FRONTEND_ICON_def SCRIPT_DIR_eq os_path_join_def dirname_def
      butlast_append normpath_append norm_step_def)

lemma src_dir_eq: "src_dir E = normpath (checkout E) @ [''src'']"
  by (simp add: src_dir_def assets_dir_eq dirname_def butlast_append)

section \<open>The statements of the script, one by one\<close>

lemma scaled_size: "width (scaled E im n) = n \<and> height (scaled E im n) = n \<and> mode (scaled E im n) = mode im"
  by (auto simp: scaled_def resized_def image_size_def)

lemma resize_ok:
  "1 \<le> n \<Longrightarrow>
   resize E r n w = (Inr (length (heap w)), w\<lparr>heap := heap w @ [scaled E (heap w ! r) n]\<rparr>)"
  by (simp add: resize_def Image_resize_def new_image_def scaled_def resized_def)

lemma write_file_ok:
  "writable E w (normpath fp) \<Longrightarrow>
   write_file E fp c w = (Inr (), w\<lparr>files := (files w)(normpath fp \<mapsto> c)\<rparr>)"
  by (auto simp: write_file_def writable_def isdir_def dirname_def normpath_idem normpath_butlast)

lemma save_png_ok:
  "writable E w (normpath fp) \<Longrightarrow>
   Image_save E r fp PNG None [] w =
     (Inr (), w\<lparr>files := (files w)(normpath fp \<mapsto> Png (heap w ! r))\<rparr>)"
  by (simp add: Image_save_def encode_def write_file_ok)

lemma writable_upd [simp]:
  "writable E (w\<lparr>heap := h\<rparr>) p = writable E w p"
  "writable E (w\<lparr>files := f\<rparr>) p = writable E w p"
  "writable E (w\<lparr>stdout := s\<rparr>) p = writable E w p"
  by (simp_all add: writable_def)

lemma png_body_ok:
  assumes "source < length (heap w)" "1 \<le> n" "f \<notin> special" "writable E w (icon_path E f)"
  shows "bind_io (resize E source n) (\<lambda>img.
        bind_io (Image_save E img (os_path_join (SCRIPT_DIR E) [f]) PNG None []) (\<lambda>_.
        print msg)) w =
      (Inr (), w\<lparr>files := (files w)(icon_path E f \<mapsto> Png (scaled E (heap w ! source) n)),
                 heap := heap w @ [scaled E (heap w ! source) n],
                 stdout := stdout w @ [msg]\<rparr>)"
  using assms
  by (simp add: bind_io_def resize_ok save_png_ok icon_path_def [symmetric] print_def)

lemma generate_pngs_ok:
  assumes "source < length (heap w)"
    and "\<forall>f\<in>set (map fst PNG_SIZES). writable E w (icon_path E f)"
  shows "generate_pngs E source w =
     (Inr (),
      w\<lparr>files := (files w)
           (icon_path E ''32x32.png'' \<mapsto> Png (scaled E (heap w ! source) 32),
            icon_path E ''128x128.png'' \<mapsto> Png (scaled E (heap w ! source) 128),
            icon_path E ''128x128@2x.png'' \<mapsto> Png (scaled E (heap w ! source) 256),
            icon_path E ''icon.png'' \<mapsto> Png (scaled E (heap w ! source) 512)),
        heap := heap w @ map (scaled E (heap w ! source)) [32, 128, 256, 512],
        stdout := stdout w @
          [''  32x32.png (32x32)'', ''  128x128.png (128x128)'',
           ''  128x128@2x.png (256x256)'', ''  icon.png (512x512)'']\<rparr>)"
proof -
  have s: "str 32 = ''32''" "str 128 = ''128''" "str 256 = ''256''" "str 512 = ''512''"
    by (simp_all add: str_def)
  show ?thesis
    using assms
    by (simp add: generate_pngs_def PNG_SIZES_def png_body_ok special_def nth_append s)
qed

lemma makedirs_frontend_ok:
  assumes "isdir w (checkout E)"
    and "files w (src_dir E) = None" and "files w (assets_dir E) = None"
    and "write_error E (src_dir E) = None" and "write_error E (assets_dir E) = None"
  shows "makedirs E (dirname (FRONTEND_ICON E)) True w =
     (Inr (), w\<lparr>dirs := insert (assets_dir E) (insert (src_dir E) (dirs w))\<rparr>)"
proof -
  have d: "rev (dirname (FRONTEND_ICON E)) =
      [''assets'', ''src'', ''..'', ''..'', ''icons'', ''src-tauri''] @ rev (normpath (checkout E))"
    by (simp add: FRONTEND_ICON_def SCRIPT_DIR_eq os_path_join_def dirname_def butlast_append)
  have n1: "normpath (normpath (checkout E) @ [''src-tauri'', ''icons'', ''..'', ''..'', ''src'']) = src_dir E"
    by (simp add: normpath_append norm_step_def src_dir_eq butlast_append)
  have n2: "normpath (normpath (checkout E) @ [''src-tauri'', ''icons'', ''..'', ''..'']) = normpath (checkout E)"
    by (simp add: normpath_append norm_step_def butlast_append)
  have n3: "normpath (normpath (checkout E) @ [''src-tauri'', ''icons'', ''..'', ''..'', ''src'', ''assets'']) = assets_dir E"
    by (simp add: normpath_append norm_step_def assets_dir_eq butlast_append)
  have b: "butlast (src_dir E) = normpath (checkout E)" "butlast (assets_dir E) = src_dir E"
    by (simp_all add: src_dir_eq assets_dir_eq butlast_append)
  have ne: "src_dir E \<noteq> []" "assets_dir E \<noteq> []" "normpath (src_dir E) = src_dir E"
    by (simp_all add: src_dir_eq assets_dir_eq normpath_append norm_step_def)
  show ?thesis
    using assms unfolding makedirs_def d
    by (auto simp: n1 n2 n3 b ne os_path_exists_def isdir_def isfile_def
        mkdir_leaf_def mkdir_def dirname_def normpath_idem insert_absorb insert_commute)
qed


lemma writable_dirs_upd:
  "writable E (w\<lparr>dirs := d\<rparr>) p \<longleftrightarrow>
   p \<noteq> [] \<and> p \<notin> d \<and> (butlast p = [] \<or> butlast p \<in> d) \<and> write_error E p = None"
  by (simp add: writable_def)

lemma generate_frontend_asset_ok:
  assumes "source < length (heap w)" and "isdir w (checkout E)"
    and "files w (src_dir E) = None" and "files w (assets_dir E) = None"
    and "write_error E (src_dir E) = None" and "write_error E (assets_dir E) = None"
    and "frontend_path E \<notin> dirs w" and "write_error E (frontend_path E) = None"
  shows "generate_frontend_asset E source w =
     (Inr (),
      w\<lparr>files := (files w)(frontend_path E \<mapsto> Png (scaled E (heap w ! source) 256)),
        dirs := insert (assets_dir E) (insert (src_dir E) (dirs w)),
        heap := heap w @ [scaled E (heap w ! source) 256],
        stdout := stdout w @ [''  src/assets/icon.png (256x256)'']\<rparr>)"
proof -
  let ?w1 = "w\<lparr>heap := heap w @ [scaled E (heap w ! source) 256]\<rparr>"
  let ?w2 = "?w1\<lparr>dirs := insert (assets_dir E) (insert (src_dir E) (dirs ?w1))\<rparr>"
  have r: "resize E source 256 w = (Inr (length (heap w)), ?w1)"
    by (simp add: resize_ok)
  have m: "makedirs E (dirname (FRONTEND_ICON E)) True ?w1 = (Inr (), ?w2)"
    using assms by (intro makedirs_frontend_ok) (simp_all add: isdir_def)
  have wr: "writable E ?w2 (normpath (FRONTEND_ICON E))"
    using assms
    by (simp add: writable_dirs_upd normpath_FRONTEND_ICON frontend_path_eq assets_dir_eq
        src_dir_eq butlast_append)
  have s: "Image_save E (length (heap w)) (FRONTEND_ICON E) PNG None [] ?w2 =
      (Inr (), ?w2\<lparr>files := (files ?w2)(normpath (FRONTEND_ICON E) \<mapsto> Png (heap ?w2 ! length (heap w)))\<rparr>)"
    by (rule save_png_ok [OF wr])
  show ?thesis
    using m s unfolding generate_frontend_asset_def bind_io_def r
    by (simp add: print_def normpath_FRONTEND_ICON frontend_path_eq)
qed

lemma sort_ico_sizes:
  "sort (remdups (map (\<lambda>s. (s, s)) ico_sizes)) = map (\<lambda>s. (s, s)) ico_sizes"
  by (simp add: ico_sizes_def)

lemma ico_frames_smallest_first:
  assumes "image_size im = (16, 16)"
  shows "ico_frames E im (map (\<lambda>s. (s, s)) ico_sizes) rest = [im]"
  using assms
  by (simp add: ico_frames_def sort_ico_sizes) (simp add: ico_sizes_def ico_frame_def image_size_def)

lemma image_size_scaled: "image_size (scaled E im n) = (n, n)"
  by (simp add: image_size_def scaled_size)

lemma comprehension_ico:
  assumes "source < length (heap w)"
  shows "comprehension (\<lambda>s. resize E source s) ico_sizes w =
     (Inr (map (\<lambda>i. length (heap w) + i) [0, 1, 2, 3, 4, 5, 6]),
      w\<lparr>heap := heap w @ map (scaled E (heap w ! source)) ico_sizes\<rparr>)"
  using assms by (simp add: ico_sizes_def resize_ok nth_append)

lemma generate_ico_ok:
  assumes "source < length (heap w)" and "writable E w (icon_path E ''icon.ico'')"
  shows "generate_ico E source w =
     (Inr (),
      w\<lparr>files := (files w)(icon_path E ''icon.ico'' \<mapsto> Ico [scaled E (heap w ! source) 16]),
        heap := heap w @ map (scaled E (heap w ! source)) ico_sizes,
        stdout := stdout w @ [''  icon.ico (16, 24, 32, 48, 64, 128, 256)'']\<rparr>)"
proof -
  let ?w1 = "w\<lparr>heap := heap w @ map (scaled E (heap w ! source)) ico_sizes\<rparr>"
  have f: "heap ?w1 ! length (heap w) = scaled E (heap w ! source) 16"
    by (simp add: ico_sizes_def nth_append)
  have wr: "writable E ?w1 (normpath (os_path_join (SCRIPT_DIR E) [''icon.ico'']))"
    using assms by (simp add: icon_path_def [symmetric])
  have sv: "Image_save E (length (heap w)) (os_path_join (SCRIPT_DIR E) [''icon.ico'']) ICO
        (Some (map (\<lambda>s. (s, s)) ico_sizes)) rest ?w1 =
      (Inr (), ?w1\<lparr>files := (files ?w1)(icon_path E ''icon.ico'' \<mapsto> Ico [scaled E (heap w ! source) 16])\<rparr>)"
    for rest
    unfolding Image_save_def encode_def f
    by (simp add: write_file_ok [OF wr] ico_frames_smallest_first image_size_scaled
        icon_path_def [symmetric])
  have j: "join_str '', '' (map str ico_sizes) = ''16, 24, 32, 48, 64, 128, 256''"
    by (simp add: ico_sizes_def str_def)
  show ?thesis
    unfolding generate_ico_def bind_io_def comprehension_ico [OF assms(1)]
    by (simp add: sv j print_def)
qed


lemma Image_save_fails_unchanged:
  "Image_save E r fp f sizes app w = (Inl e, w') \<Longrightarrow> w' = w"
  by (auto simp: Image_save_def write_file_def split: if_splits option.splits)

lemma generate_icns_unsupported:
  "\<not> icns_supported E \<Longrightarrow>
   generate_icns E source w =
     (Inr (), w\<lparr>stdout := stdout w @
        [''  Warning: Cannot generate .icns (Pillow ICNS support missing)'']\<rparr>)"
  by (simp add: generate_icns_def Image_save_def print_def)

lemma generate_icns_failed:
  "Image_save E source (os_path_join (SCRIPT_DIR E) [''icon.icns'']) ICNS None [] w = (Inl e, w') \<Longrightarrow>
   generate_icns E source w =
     (Inr (), w\<lparr>stdout := stdout w @
        [''  Warning: Cannot generate .icns (Pillow ICNS support missing)'']\<rparr>)"
proof -
  assume a: "Image_save E source (os_path_join (SCRIPT_DIR E) [''icon.icns'']) ICNS None [] w = (Inl e, w')"
  from Image_save_fails_unchanged [OF a] have "w' = w" .
  with a show ?thesis by (simp add: generate_icns_def print_def)
qed

lemma generate_icns_ok:
  assumes "icns_supported E" and "writable E w (icon_path E ''icon.icns'')"
  shows "generate_icns E source w =
     (Inr (), w\<lparr>files := (files w)(icon_path E ''icon.icns'' \<mapsto> Icns (heap w ! source)),
                stdout := stdout w @ [''  icon.icns'']\<rparr>)"
proof -
  have wr: "writable E w (normpath (os_path_join (SCRIPT_DIR E) [''icon.icns'']))"
    using assms by (simp add: icon_path_def [symmetric])
  show ?thesis
    using assms(1)
    by (simp add: generate_icns_def Image_save_def encode_def write_file_ok [OF wr] print_def
        icon_path_def [symmetric])
qed

lemma generate_icns_returns: "fst (generate_icns E source w) = Inr ()"
  by (simp add: generate_icns_def print_def split: prod.splits sum.splits)

lemma load_source_ok:
  assumes "files w (source_path E) = Some c" and "decode E c = Inr im"
    and "source_path E \<notin> dirs w"
  shows "load_source E w =
     (Inr (Suc (length (heap w))), w\<lparr>heap := heap w @ [im, loaded E im]\<rparr>)"
  using assms
  by (simp add: load_source_def bind_io_def Image_open_def isdir_def
      source_path_def [symmetric] new_image_def Image_convert_def loaded_def)
    (simp add: source_path_eq)

lemma load_source_decode_error:
  assumes "files w (source_path E) = Some c" and "decode E c = Inl e"
    and "source_path E \<notin> dirs w"
  shows "load_source E w = (Inl e, w)"
  using assms
  by (simp add: load_source_def bind_io_def Image_open_def isdir_def
      source_path_def [symmetric])
    (simp add: source_path_eq)

section \<open>The run as a whole\<close>

lemma bind_io_Inr: "m w = (Inr a, w') \<Longrightarrow> bind_io m f w = f a w'"
  by (simp add: bind_io_def)

lemma bind_io_Inl: "m w = (Inl e, w') \<Longrightarrow> bind_io m f w = (Inl e, w')"
  by (simp add: bind_io_def)

lemma bind_print: "bind_io (print s) f w = f () (w\<lparr>stdout := stdout w @ [s]\<rparr>)"
  by (simp add: bind_io_def print_def)

lemma bind_print_fun:
  "bind_io (\<lambda>w. print (g w) w) f w = f () (w\<lparr>stdout := stdout w @ [g w]\<rparr>)"
  by (simp add: bind_io_def print_def)

lemma ready_exists: "ready E w im \<Longrightarrow> os_path_exists w (SOURCE E)"
  by (auto simp: ready_def os_path_exists_def isfile_def source_path_def)

lemma main_ready:
  assumes "ready E w im"
  shows "main E w =
     (case generate_icns E (Suc (length (heap w))) (world_before_icns E im w) of
        (r, w5) \<Rightarrow>
          (Inr (), w5\<lparr>stdout := stdout w5 @ ['''', ''Done. All icons generated from logo.png'']\<rparr>))"
proof -
  define s where "s = Suc (length (heap w))"
  define src where "src = loaded E im"
  define line where "line = ''Source: '' @ path_str (SOURCE E) @ '' ('' @ str (width im) @ ''x''
            @ str (height im) @ '')''"
  from assms obtain c where c: "files w (source_path E) = Some c" "decode E c = Inr im"
    by (auto simp: ready_def)
  from assms have nd: "source_path E \<notin> dirs w" by (simp add: ready_def)
  define w1 where "w1 = w\<lparr>heap := heap w @ [im, src]\<rparr>"
  have l: "load_source E w = (Inr s, w1)"
    unfolding s_def w1_def src_def by (rule load_source_ok [OF c nd])
  have line: "''Source: '' @ path_str (SOURCE E) @ '' ('' @ str (width (heap w1 ! s)) @ ''x''
            @ str (height (heap w1 ! s)) @ '')'' = line"
    by (simp add: line_def w1_def s_def src_def loaded_def nth_append)
  define w2 where "w2 = w1\<lparr>stdout := stdout w1 @ [line, '''']\<rparr>"
  have w2f: "files w2 = files w" "dirs w2 = dirs w" "heap w2 = heap w @ [im, src]"
    "stdout w2 = stdout w @ [line, '''']"
    by (simp_all add: w2_def w1_def)
  have hs: "s < length (heap w2)" "heap w2 ! s = src"
    by (simp_all add: w2f s_def nth_append)
  have wp: "\<forall>f\<in>set (map fst PNG_SIZES). writable E w2 (icon_path E f)"
    using assms by (simp add: ready_def writable_def w2f)
  define w3 where "w3 = snd (generate_pngs E s w2)"
  note p = generate_pngs_ok [OF hs(1) wp, unfolded hs(2)]
  have p3: "generate_pngs E s w2 = (Inr (), w3)"
    by (simp add: w3_def p)
  have w3f:
    "files w3 = (files w)
       (icon_path E ''32x32.png'' \<mapsto> Png (scaled E src 32),
        icon_path E ''128x128.png'' \<mapsto> Png (scaled E src 128),
        icon_path E ''128x128@2x.png'' \<mapsto> Png (scaled E src 256),
        icon_path E ''icon.png'' \<mapsto> Png (scaled E src 512))"
    "dirs w3 = dirs w"
    "heap w3 = heap w @ [im, src] @ map (scaled E src) [32, 128, 256, 512]"
    "stdout w3 = stdout w @ [line, ''''] @
       [''  32x32.png (32x32)'', ''  128x128.png (128x128)'',
        ''  128x128@2x.png (256x256)'', ''  icon.png (512x512)'']"
    by (simp_all add: w3_def p w2f)
  have h3: "s < length (heap w3)" "heap w3 ! s = src"
    by (simp_all add: w3f s_def nth_append)
  have pre3: "isdir w3 (checkout E)" "files w3 (src_dir E) = None"
    "files w3 (assets_dir E) = None" "write_error E (src_dir E) = None"
    "write_error E (assets_dir E) = None" "frontend_path E \<notin> dirs w3"
    "write_error E (frontend_path E) = None"
    using assms
    by (simp_all add: ready_def isdir_def w3f src_dir_eq assets_dir_eq icon_path_eq special_def)
  define w4 where "w4 = snd (generate_frontend_asset E s w3)"
  note f = generate_frontend_asset_ok [OF h3(1) pre3, unfolded h3(2)]
  have f4: "generate_frontend_asset E s w3 = (Inr (), w4)"
    by (simp add: w4_def f)
  have w4f:
    "files w4 = (files w3)(frontend_path E \<mapsto> Png (scaled E src 256))"
    "dirs w4 = insert (assets_dir E) (insert (src_dir E) (dirs w))"
    "heap w4 = heap w3 @ [scaled E src 256]"
    "stdout w4 = stdout w3 @ [''  src/assets/icon.png (256x256)'']"
    by (simp_all add: w4_def f w3f)
  have h4: "s < length (heap w4)" "heap w4 ! s = src"
    using h3 by (simp_all add: w4f nth_append)
  have wi: "writable E w4 (icon_path E ''icon.ico'')"
    using assms
    by (simp add: w4f ready_def writable_def icon_path_eq special_def src_dir_eq
        assets_dir_eq butlast_append)
  note i = generate_ico_ok [OF h4(1) wi, unfolded h4(2)]
  have w5: "snd (generate_ico E s w4) = world_before_icns E im w"
    unfolding i
    by (rule world.equality)
      (simp_all add: w4f w3f world_before_icns_def src_def line_def)
  have i5: "generate_ico E s w4 = (Inr (), world_before_icns E im w)"
    using w5 by (simp add: i)
  have ex: "os_path_exists w (SOURCE E)" by (rule ready_exists [OF assms])
  have A: "main E w =
      bind_io (generate_pngs E s) (\<lambda>_.
      bind_io (generate_frontend_asset E s) (\<lambda>_.
      bind_io (generate_ico E s) (\<lambda>_.
      bind_io (generate_icns E s) (\<lambda>_.
      bind_io (print '''') (\<lambda>_.
      print ''Done. All icons generated from logo.png''))))) w2"
    by (simp add: main_def ex bind_io_Inr [of "load_source E" w s w1, OF l] bind_print bind_print_fun)
      (simp add: w2_def line_def w1_def s_def src_def loaded_def nth_append)
  obtain w6 where g: "generate_icns E s (world_before_icns E im w) = (Inr (), w6)"
    by (metis generate_icns_returns prod.collapse)
  show ?thesis
    unfolding A
    by (simp add: bind_io_Inr [of "generate_pngs E s" w2 _ w3, OF p3] bind_io_Inr [of "generate_frontend_asset E s" w3 _ w4, OF f4] bind_io_Inr [of "generate_ico E s" w4 _ _, OF i5] bind_io_Inr [of "generate_icns E s" _ _ w6, OF g]
        g [unfolded s_def] bind_print print_def)
qed

section \<open>A missing source\<close>

text \<open>
  C1. If the source path does not exist, \<open>main\<close> prints one line, the error message
  ending in the text of the missing path, and returns. Nothing else changes: the files,
  the directories and the image store of the world are those it started with, so no file
  was opened and no output was created.
\<close>

theorem source_missing:
  "\<not> os_path_exists w (SOURCE E) \<Longrightarrow>
   main E w =
     (Inr (), w\<lparr>stdout := stdout w @ [''ERROR: Source not found: '' @ path_str (SOURCE E)]\<rparr>)"
  by (simp add: main_def print_def)

theorem source_missing_witness:
  "\<not> os_path_exists bare_world (SOURCE demo_env) \<and>
   main demo_env bare_world =
     (Inr (), bare_world\<lparr>stdout :=
        [''ERROR: Source not found: /home/installer/src-tauri/icons/../../../logo.png'']\<rparr>)"
proof -
  have n: "normpath (SOURCE demo_env) = [''home'', ''logo.png'']"
    unfolding normpath_SOURCE by (simp add: demo_env_def normpath_def norm_step_def)
  have h: "\<not> os_path_exists bare_world (SOURCE demo_env)"
    by (simp add: os_path_exists_def isdir_def isfile_def n bare_world_def demo_dirs_def)
  have s: "path_str (SOURCE demo_env) = ''/home/installer/src-tauri/icons/../../../logo.png''"
    by (simp add: path_str_def SOURCE_def SCRIPT_DIR_eq os_path_join_def demo_env_def
        normpath_def norm_step_def)
  show ?thesis
    using source_missing [OF h] h by (simp add: s bare_world_def)
qed

section \<open>Facts about the concrete environment\<close>

lemma demo_root: "normpath (checkout demo_env) = [''home'', ''installer'']"
  by (simp add: demo_env_def normpath_def norm_step_def)

lemma demo_icon_path:
  "f \<notin> special \<Longrightarrow>
   icon_path demo_env f = [''home'', ''installer'', ''src-tauri'', ''icons'', f]"
  by (simp add: icon_path_eq demo_root)

lemma demo_write_error: "write_error demo_env p = None"
  by (simp add: demo_env_def)

lemma demo_writable:
  "f \<notin> special \<Longrightarrow> writable demo_env heap_world (icon_path demo_env f)"
  "f \<notin> special \<Longrightarrow> writable demo_env demo_world (icon_path demo_env f)"
  by (simp_all add: demo_icon_path writable_def heap_world_def demo_world_def demo_dirs_def
      demo_write_error)

section \<open>Resizing\<close>

text \<open>Pillow refuses an edge length below one pixel, and so does \<open>resize\<close>.\<close>

lemma resize_rejects:
  "n < 1 \<Longrightarrow> valid_image (heap w ! r) \<Longrightarrow> resize E r n w = (Inl ValueError, w)"
  by (auto simp: resize_def Image_resize_def valid_image_def image_size_def)

text \<open>
  C5. For every image object \<open>source_img\<close> of the store and every edge length \<open>n\<close> (an
  integer of at least one pixel), \<open>resize\<close> returns a new object: its reference was not in
  use, it is \<open>n\<close> by \<open>n\<close>, and it has the mode of the source (RGBA for an RGBA source).
  Every object that existed before, the source included, is unchanged, and so are the
  files, the directories and the output. The new image is \<open>scaled\<close> of the value of the
  source and of \<open>n\<close> alone: no other image of the store, derived or not, enters it.
\<close>

theorem resize_new_square_image:
  assumes "source_img < length (heap w)" and "1 \<le> n"
  shows "\<exists>img w'. resize E source_img n w = (Inr img, w') \<and>
           img = length (heap w) \<and> length (heap w') = Suc (length (heap w)) \<and>
           width (heap w' ! img) = n \<and> height (heap w' ! img) = n \<and>
           mode (heap w' ! img) = mode (heap w ! source_img) \<and>
           (\<forall>r < length (heap w). heap w' ! r = heap w ! r) \<and>
           files w' = files w \<and> dirs w' = dirs w \<and> stdout w' = stdout w \<and>
           heap w' ! img = scaled E (heap w ! source_img) n"
  using assms by (simp add: resize_ok scaled_size nth_append)

theorem resize_new_square_image_witness:
  "\<exists>img w'. resize demo_env 0 32 heap_world = (Inr img, w') \<and>
      img = 1 \<and> width (heap w' ! img) = 32 \<and> height (heap w' ! img) = 32 \<and>
      mode (heap w' ! img) = RGBA \<and> heap w' ! 0 = demo_logo"
proof -
  have h: "0 < length (heap heap_world)" by (simp add: heap_world_def)
  have m: "mode (heap heap_world ! 0) = RGBA" "heap heap_world ! 0 = demo_logo"
    by (simp_all add: heap_world_def demo_logo_def)
  from resize_new_square_image [OF h, of 32 demo_env]
  show ?thesis using h m by (auto simp: heap_world_def)
qed

section \<open>The PNG files\<close>

text \<open>
  C2. When the four files can be created, the PNG block changes the file system at
  exactly four places, \<^verbatim>\<open>32x32.png\<close>, \<^verbatim>\<open>128x128.png\<close>, \<^verbatim>\<open>128x128@2x.png\<close> and \<^verbatim>\<open>icon.png\<close> in
  the script's own directory, and what it stores at each is the PNG of the source resized
  to the entry of \<open>PNG_SIZES\<close>: 32, 128, 256 and 512 pixels wide and high. This holds for
  every source image, whatever its size.
\<close>

theorem png_emission:
  assumes "source < length (heap w)"
    and "\<forall>f\<in>set (map fst PNG_SIZES). writable E w (icon_path E f)"
  shows "\<exists>w'. generate_pngs E source w = (Inr (), w') \<and>
      files w' = (files w)
        (icon_path E ''32x32.png'' \<mapsto> Png (scaled E (heap w ! source) 32),
         icon_path E ''128x128.png'' \<mapsto> Png (scaled E (heap w ! source) 128),
         icon_path E ''128x128@2x.png'' \<mapsto> Png (scaled E (heap w ! source) 256),
         icon_path E ''icon.png'' \<mapsto> Png (scaled E (heap w ! source) 512)) \<and>
      dirs w' = dirs w \<and>
      (\<forall>(f, n)\<in>set PNG_SIZES.
         icon_path E f = SCRIPT_DIR E @ [f] \<and>
         files w' (icon_path E f) = Some (Png (scaled E (heap w ! source) n)) \<and>
         width (scaled E (heap w ! source) n) = n \<and>
         height (scaled E (heap w ! source) n) = n)"
  using assms
  by (simp add: generate_pngs_ok scaled_size)
    (simp add: PNG_SIZES_def icon_path_in_script_dir icon_path_eq special_def)

theorem png_emission_witness:
  "\<exists>w' img. generate_pngs demo_env 0 heap_world = (Inr (), w') \<and>
     files w' [''home'', ''installer'', ''src-tauri'', ''icons'', ''icon.png''] = Some (Png img) \<and>
     width img = 512 \<and> height img = 512"
proof -
  have h: "0 < length (heap heap_world)" by (simp add: heap_world_def)
  have wr: "\<forall>f\<in>set (map fst PNG_SIZES). writable demo_env heap_world (icon_path demo_env f)"
    by (simp add: PNG_SIZES_def demo_writable special_def)
  from png_emission [OF h wr] show ?thesis
    by (auto simp: PNG_SIZES_def demo_icon_path special_def)
qed

section \<open>The front-end asset\<close>

lemma makedirs_existing:
  assumes "assets_dir E \<in> dirs w" and "src_dir E \<in> dirs w"
  shows "makedirs E (dirname (FRONTEND_ICON E)) True w = (Inr (), w)"
proof -
  have d: "rev (dirname (FRONTEND_ICON E)) =
      [''assets'', ''src'', ''..'', ''..'', ''icons'', ''src-tauri''] @ rev (normpath (checkout E))"
    by (simp add: FRONTEND_ICON_def SCRIPT_DIR_eq os_path_join_def dirname_def butlast_append)
  have n1: "normpath (normpath (checkout E) @ [''src-tauri'', ''icons'', ''..'', ''..'', ''src'']) = src_dir E"
    by (simp add: normpath_append norm_step_def src_dir_eq butlast_append)
  have n3: "normpath (normpath (checkout E) @ [''src-tauri'', ''icons'', ''..'', ''..'', ''src'', ''assets'']) = assets_dir E"
    by (simp add: normpath_append norm_step_def assets_dir_eq butlast_append)
  show ?thesis
    using assms unfolding makedirs_def d
    by (simp add: n1 n3 os_path_exists_def isdir_def mkdir_leaf_def mkdir_def)
qed

lemma save_needs_directory:
  assumes "assets_dir E \<notin> dirs w" and "frontend_path E \<notin> dirs w"
  shows "Image_save E r (FRONTEND_ICON E) PNG None [] w = (Inl FileNotFoundError, w)"
  using assms
  by (simp add: Image_save_def write_file_def isdir_def dirname_def frontend_path_def [symmetric])
    (simp add: frontend_path_eq assets_dir_eq butlast_append normpath_append norm_step_def)

text \<open>
  C7. When \<^verbatim>\<open>src/assets\<close> under the checkout exists or can be created and the icon in it
  can be written, the block resizes the source to 256 by 256 pixels and stores it as a
  PNG at \<open>FRONTEND_ICON\<close>, in the directory \<^verbatim>\<open>src/assets\<close>, after \<open>makedirs\<close> has made
  \<^verbatim>\<open>src\<close> and \<^verbatim>\<open>src/assets\<close> directories. No other file changes. Where both directories
  exist already the step succeeds all the same and the directories of the world are
  unchanged, and \<open>makedirs\<close> run again in the resulting world returns without an error
  and without a change.
\<close>

theorem frontend_asset:
  assumes "source < length (heap w)" and "isdir w (checkout E)"
    and "files w (src_dir E) = None" and "files w (assets_dir E) = None"
    and "write_error E (src_dir E) = None" and "write_error E (assets_dir E) = None"
    and "frontend_path E \<notin> dirs w" and "write_error E (frontend_path E) = None"
  shows "\<exists>w'. generate_frontend_asset E source w = (Inr (), w') \<and>
     files w' = (files w)(frontend_path E \<mapsto> Png (scaled E (heap w ! source) 256)) \<and>
     image_size (scaled E (heap w ! source) 256) = (256, 256) \<and>
     dirname (frontend_path E) = assets_dir E \<and>
     dirs w' = insert (assets_dir E) (insert (src_dir E) (dirs w)) \<and>
     (assets_dir E \<in> dirs w \<and> src_dir E \<in> dirs w \<longrightarrow> dirs w' = dirs w) \<and>
     makedirs E (dirname (FRONTEND_ICON E)) True w' = (Inr (), w')"
proof -
  let ?w' = "snd (generate_frontend_asset E source w)"
  note ok = generate_frontend_asset_ok [OF assms]
  have m: "makedirs E (dirname (FRONTEND_ICON E)) True ?w' = (Inr (), ?w')"
    by (rule makedirs_existing) (simp_all add: ok)
  show ?thesis
    using m
    by (auto simp: ok image_size_scaled frontend_path_eq assets_dir_eq dirname_def butlast_append)
qed

theorem frontend_asset_witness:
  "\<exists>w' img. generate_frontend_asset demo_env 0 heap_world = (Inr (), w') \<and>
     files w' [''home'', ''installer'', ''src'', ''assets'', ''icon.png''] = Some (Png img) \<and>
     image_size img = (256, 256) \<and>
     [''home'', ''installer'', ''src'', ''assets''] \<in> dirs w' \<and>
     makedirs demo_env (dirname (FRONTEND_ICON demo_env)) True w' = (Inr (), w')"
proof -
  have p: "frontend_path demo_env = [''home'', ''installer'', ''src'', ''assets'', ''icon.png'']"
    "assets_dir demo_env = [''home'', ''installer'', ''src'', ''assets'']"
    "src_dir demo_env = [''home'', ''installer'', ''src'']"
    by (simp_all add: frontend_path_eq assets_dir_eq src_dir_eq demo_root)
  have h: "0 < length (heap heap_world)" "isdir heap_world (checkout demo_env)"
    "files heap_world (src_dir demo_env) = None" "files heap_world (assets_dir demo_env) = None"
    "write_error demo_env (src_dir demo_env) = None"
    "write_error demo_env (assets_dir demo_env) = None"
    "frontend_path demo_env \<notin> dirs heap_world"
    "write_error demo_env (frontend_path demo_env) = None"
    by (simp_all add: p isdir_def demo_root demo_write_error heap_world_def demo_world_def
        demo_dirs_def)
  from frontend_asset [OF h] show ?thesis
    by (auto simp: p)
qed

section \<open>Runs that reach the ICNS step\<close>

lemma before_icns_files:
  "files (world_before_icns E im w) (icon_path E ''32x32.png'') = Some (Png (scaled E (loaded E im) 32))"
  "files (world_before_icns E im w) (icon_path E ''128x128.png'') = Some (Png (scaled E (loaded E im) 128))"
  "files (world_before_icns E im w) (icon_path E ''128x128@2x.png'') = Some (Png (scaled E (loaded E im) 256))"
  "files (world_before_icns E im w) (icon_path E ''icon.png'') = Some (Png (scaled E (loaded E im) 512))"
  "files (world_before_icns E im w) (frontend_path E) = Some (Png (scaled E (loaded E im) 256))"
  "files (world_before_icns E im w) (icon_path E ''icon.ico'') = Some (Ico [scaled E (loaded E im) 16])"
  "files (world_before_icns E im w) (icon_path E ''icon.icns'') = files w (icon_path E ''icon.icns'')"
  by (simp_all add: world_before_icns_def icon_path_eq special_def frontend_path_eq)

lemma generate_icns_files:
  "p \<noteq> icon_path E ''icon.icns'' \<Longrightarrow> files (snd (generate_icns E s w)) p = files w p"
  by (auto simp: generate_icns_def Image_save_def write_file_def print_def icon_path_def
      split: option.splits)

lemma main_ready_obtain:
  assumes "ready E w im"
  obtains w6 where
    "generate_icns E (Suc (length (heap w))) (world_before_icns E im w) = (Inr (), w6)"
    "main E w =
       (Inr (), w6\<lparr>stdout := stdout w6 @ ['''', ''Done. All icons generated from logo.png'']\<rparr>)"
proof -
  obtain w6 where
    g: "generate_icns E (Suc (length (heap w))) (world_before_icns E im w) = (Inr (), w6)"
    by (metis generate_icns_returns prod.collapse)
  with main_ready [OF assms] that show thesis by simp
qed

lemma icon_names_distinct:
  "icon_path E ''32x32.png'' \<noteq> icon_path E ''icon.icns''"
  "icon_path E ''128x128.png'' \<noteq> icon_path E ''icon.icns''"
  "icon_path E ''128x128@2x.png'' \<noteq> icon_path E ''icon.icns''"
  "icon_path E ''icon.png'' \<noteq> icon_path E ''icon.icns''"
  "icon_path E ''icon.ico'' \<noteq> icon_path E ''icon.icns''"
  "frontend_path E \<noteq> icon_path E ''icon.icns''"
  by (simp_all add: icon_path_eq special_def frontend_path_eq)

lemma ready_demo:
  assumes "checkout E = [''home'', ''installer'']" and "decode E (Png im) = Inr im"
    and "valid_image im"
    and "\<And>p. p \<noteq> [''home'', ''installer'', ''src-tauri'', ''icons'', ''icon.icns''] \<Longrightarrow>
           write_error E p = None"
    and "files w = [[''home'', ''logo.png''] \<mapsto> Png im]" and "dirs w = demo_dirs"
  shows "ready E w im"
proof -
  have r: "normpath (checkout E) = [''home'', ''installer'']"
    by (simp add: assms(1) normpath_def norm_step_def)
  show ?thesis
    using assms(2-)
    by (simp add: ready_def source_path_eq icon_path_eq special_def PNG_SIZES_def src_dir_eq
        assets_dir_eq frontend_path_eq r writable_def isdir_def demo_dirs_def)
qed

lemma ready_no_icns: "ready no_icns_env demo_world demo_logo"
  by (rule ready_demo)
    (simp_all add: no_icns_env_def demo_env_def demo_world_def valid_image_def demo_logo_def)

lemma ready_full_disk: "ready full_disk_env demo_world demo_logo"
  by (rule ready_demo)
    (simp_all add: full_disk_env_def demo_env_def demo_world_def valid_image_def demo_logo_def)

lemma ready_tiny: "ready demo_env tiny_world tiny_logo"
  by (rule ready_demo)
    (simp_all add: demo_env_def tiny_world_def demo_world_def valid_image_def tiny_logo_def)

lemma ready_demo_env: "ready demo_env demo_world demo_logo"
  by (rule ready_demo)
    (simp_all add: demo_env_def demo_world_def valid_image_def demo_logo_def)

section \<open>The ICO container\<close>

lemma Image_save_stdout:
  "Image_save E r fp f sz ap w = (res, w') \<Longrightarrow> stdout w' = stdout w"
  by (auto simp: Image_save_def write_file_def split: if_splits option.splits)

lemma generate_icns_stdout:
  "\<exists>l. stdout (snd (generate_icns E s w)) = stdout w @ [l]"
proof (cases "Image_save E s (os_path_join (SCRIPT_DIR E) [''icon.icns'']) ICNS None [] w")
  case (Pair res w')
  from Image_save_stdout [OF Pair] have "stdout w' = stdout w" .
  with Pair show ?thesis
    by (cases res) (simp_all add: generate_icns_def print_def)
qed

text \<open>
  C3. The script saves the container from \<^verbatim>\<open>ico_images[0]\<close>, the 16 pixel image, and
  Pillow's writer ignores every requested size larger than the image it is saving. So,
  for every source image with which the run reaches the ICO step, \<open>main\<close> returns
  normally and the file \<^verbatim>\<open>icon.ico\<close> in the script's directory holds one frame, the
  source resized to 16 pixels, and none of the sizes 24, 32, 48, 64, 128 and 256 that
  the script requests, passes as \<^verbatim>\<open>append_images\<close> and prints.
\<close>

theorem ico_embeds_one_frame:
  assumes "ready E w im"
  shows "\<exists>w'. main E w = (Inr (), w') \<and>
      icon_path E ''icon.ico'' = SCRIPT_DIR E @ [''icon.ico''] \<and>
      files w' (icon_path E ''icon.ico'') = Some (Ico [scaled E (loaded E im) 16]) \<and>
      map image_size [scaled E (loaded E im) 16] = [(16, 16)] \<and>
      ''  icon.ico (16, 24, 32, 48, 64, 128, 256)'' \<in> set (stdout w')"
proof -
  from main_ready_obtain [OF assms] obtain w6 where
    g: "generate_icns E (Suc (length (heap w))) (world_before_icns E im w) = (Inr (), w6)" and
    m: "main E w =
       (Inr (), w6\<lparr>stdout := stdout w6 @ ['''', ''Done. All icons generated from logo.png'']\<rparr>)"
    by blast
  have f: "files w6 (icon_path E ''icon.ico'') = Some (Ico [scaled E (loaded E im) 16])"
    using generate_icns_files [OF icon_names_distinct(5), of E "Suc (length (heap w))"
        "world_before_icns E im w"] g
    by (simp add: before_icns_files)
  from generate_icns_stdout [of E "Suc (length (heap w))" "world_before_icns E im w"] g
  obtain l where "stdout w6 = stdout (world_before_icns E im w) @ [l]"
    by auto
  then have o: "''  icon.ico (16, 24, 32, 48, 64, 128, 256)'' \<in> set (stdout w6)"
    by (simp add: world_before_icns_def)
  show ?thesis
    unfolding m using f o
    by (simp add: image_size_scaled icon_path_in_script_dir special_def)
qed

theorem ico_embeds_one_frame_witness:
  "\<exists>w' frame. main demo_env demo_world = (Inr (), w') \<and>
     files w' [''home'', ''installer'', ''src-tauri'', ''icons'', ''icon.ico''] = Some (Ico [frame]) \<and>
     image_size frame = (16, 16)"
proof -
  from ico_embeds_one_frame [OF ready_demo_env] show ?thesis
    by (auto simp: demo_icon_path special_def)
qed

section \<open>A missing ICNS encoder, and other failures of the ICNS step\<close>

text \<open>
  C4. In an environment that is \<open>ready\<close> and in which Pillow cannot write ICNS, \<open>main\<close>
  returns normally. The four PNG files, the front-end asset and \<^verbatim>\<open>icon.ico\<close> are in the
  file system, \<^verbatim>\<open>icon.icns\<close> is as it was, and the output ends with the warning, an empty
  line and the final line.
\<close>

theorem icns_unsupported_run_completes:
  assumes "ready E w im" and "\<not> icns_supported E"
  shows "\<exists>w'. main E w = (Inr (), w') \<and>
     (\<forall>(f, n)\<in>set PNG_SIZES. files w' (icon_path E f) = Some (Png (scaled E (loaded E im) n))) \<and>
     files w' (frontend_path E) = Some (Png (scaled E (loaded E im) 256)) \<and>
     (\<exists>frames. files w' (icon_path E ''icon.ico'') = Some (Ico frames)) \<and>
     files w' (icon_path E ''icon.icns'') = files w (icon_path E ''icon.icns'') \<and>
     stdout w' = stdout (world_before_icns E im w) @
       [''  Warning: Cannot generate .icns (Pillow ICNS support missing)'', '''',
        ''Done. All icons generated from logo.png'']"
proof -
  from main_ready_obtain [OF assms(1)] obtain w6 where
    g: "generate_icns E (Suc (length (heap w))) (world_before_icns E im w) = (Inr (), w6)" and
    m: "main E w =
       (Inr (), w6\<lparr>stdout := stdout w6 @ ['''', ''Done. All icons generated from logo.png'']\<rparr>)"
    by blast
  from g generate_icns_unsupported [OF assms(2), of "Suc (length (heap w))" "world_before_icns E im w"]
  have w6: "w6 = (world_before_icns E im w)\<lparr>stdout := stdout (world_before_icns E im w) @
        [''  Warning: Cannot generate .icns (Pillow ICNS support missing)'']\<rparr>"
    by simp
  show ?thesis
    unfolding m by (simp add: w6 before_icns_files PNG_SIZES_def)
qed

theorem icns_unsupported_run_completes_witness:
  "\<exists>w' i512 frames out. main no_icns_env demo_world = (Inr (), w') \<and>
     files w' [''home'', ''installer'', ''src-tauri'', ''icons'', ''icon.png''] = Some (Png i512) \<and>
     files w' [''home'', ''installer'', ''src-tauri'', ''icons'', ''icon.ico''] = Some (Ico frames) \<and>
     files w' [''home'', ''installer'', ''src-tauri'', ''icons'', ''icon.icns''] = None \<and>
     stdout w' = out @
       [''  Warning: Cannot generate .icns (Pillow ICNS support missing)'', '''',
        ''Done. All icons generated from logo.png'']"
proof -
  have n: "\<not> icns_supported no_icns_env" by (simp add: no_icns_env_def)
  have r: "normpath (checkout no_icns_env) = [''home'', ''installer'']"
    by (simp add: no_icns_env_def demo_env_def normpath_def norm_step_def)
  have p: "icon_path no_icns_env ''icon.png'' = [''home'', ''installer'', ''src-tauri'', ''icons'', ''icon.png'']"
    "icon_path no_icns_env ''icon.ico'' = [''home'', ''installer'', ''src-tauri'', ''icons'', ''icon.ico'']"
    "icon_path no_icns_env ''icon.icns'' = [''home'', ''installer'', ''src-tauri'', ''icons'', ''icon.icns'']"
    by (simp_all add: icon_path_eq special_def r)
  have f: "files demo_world [''home'', ''installer'', ''src-tauri'', ''icons'', ''icon.icns''] = None"
    by (simp add: demo_world_def)
  from icns_unsupported_run_completes [OF ready_no_icns n] show ?thesis
    by (auto simp: PNG_SIZES_def p f)
qed

lemma icns_save_refused:
  assumes "ready E w im" and "icns_supported E"
    and "icon_path E ''icon.icns'' \<notin> dirs w"
    and "write_error E (icon_path E ''icon.icns'') = Some e"
  shows "Image_save E s (os_path_join (SCRIPT_DIR E) [''icon.icns'']) ICNS None []
           (world_before_icns E im w) = (Inl e, world_before_icns E im w)"
proof -
  from assms(1) have "writable E w (icon_path E ''32x32.png'')"
    by (simp add: ready_def PNG_SIZES_def)
  then have d: "normpath (checkout E) @ [''src-tauri'', ''icons''] \<in> dirs w"
    by (simp add: writable_def icon_path_eq special_def butlast_append)
  show ?thesis
    using assms(2-) d
    by (simp add: Image_save_def write_file_def isdir_def dirname_def
        icon_path_def [symmetric])
      (simp add: icon_path_eq special_def world_before_icns_def butlast_append
        assets_dir_eq src_dir_eq normpath_append norm_step_def)
qed

text \<open>
  C9. The handler of the ICNS step is not limited to a missing encoder. Where Pillow can
  write ICNS and the operating system refuses the file with any exception \<open>e\<close>, the save
  raises \<open>e\<close>, and \<open>main\<close> still returns normally, having printed the same warning and
  then the final line; the file system is the one the earlier steps left. In general,
  whenever the save of the ICNS step raises, in any world and with any exception, the
  step returns normally after printing that warning.
\<close>

theorem icns_any_error_caught:
  assumes "ready E w im" and "icns_supported E"
    and "icon_path E ''icon.icns'' \<notin> dirs w"
    and "write_error E (icon_path E ''icon.icns'') = Some e"
  shows "Image_save E (Suc (length (heap w))) (os_path_join (SCRIPT_DIR E) [''icon.icns''])
           ICNS None [] (world_before_icns E im w) = (Inl e, world_before_icns E im w) \<and>
     main E w =
       (Inr (), (world_before_icns E im w)\<lparr>stdout := stdout (world_before_icns E im w) @
          [''  Warning: Cannot generate .icns (Pillow ICNS support missing)'', '''',
           ''Done. All icons generated from logo.png'']\<rparr>) \<and>
     (\<forall>source w0 e0 w1.
        Image_save E source (os_path_join (SCRIPT_DIR E) [''icon.icns'']) ICNS None [] w0
          = (Inl e0, w1) \<longrightarrow>
        generate_icns E source w0 =
          (Inr (), w0\<lparr>stdout := stdout w0 @
             [''  Warning: Cannot generate .icns (Pillow ICNS support missing)'']\<rparr>))"
proof -
  note sv = icns_save_refused [OF assms, of "Suc (length (heap w))"]
  note g = generate_icns_failed [OF sv]
  have m: "main E w =
       (Inr (), (world_before_icns E im w)\<lparr>stdout := stdout (world_before_icns E im w) @
          [''  Warning: Cannot generate .icns (Pillow ICNS support missing)'', '''',
           ''Done. All icons generated from logo.png'']\<rparr>)"
    by (simp add: main_ready [OF assms(1)] g)
  show ?thesis
    using sv m generate_icns_failed by blast
qed

theorem icns_any_error_caught_witness:
  "\<exists>w' out. main full_disk_env demo_world = (Inr (), w') \<and>
     files w' [''home'', ''installer'', ''src-tauri'', ''icons'', ''icon.icns''] = None \<and>
     stdout w' = out @
       [''  Warning: Cannot generate .icns (Pillow ICNS support missing)'', '''',
        ''Done. All icons generated from logo.png'']"
proof -
  have r: "normpath (checkout full_disk_env) = [''home'', ''installer'']"
    by (simp add: full_disk_env_def demo_env_def normpath_def norm_step_def)
  have p: "icon_path full_disk_env ''icon.icns'' =
      [''home'', ''installer'', ''src-tauri'', ''icons'', ''icon.icns'']"
    by (simp add: icon_path_eq special_def r)
  have h: "icns_supported full_disk_env"
    "icon_path full_disk_env ''icon.icns'' \<notin> dirs demo_world"
    "write_error full_disk_env (icon_path full_disk_env ''icon.icns'') = Some OSError"
    unfolding p by (simp_all add: full_disk_env_def demo_env_def demo_world_def demo_dirs_def)
  have f: "files (world_before_icns full_disk_env demo_logo demo_world)
      [''home'', ''installer'', ''src-tauri'', ''icons'', ''icon.icns''] = None"
    using before_icns_files(7) [of full_disk_env demo_logo demo_world]
    by (simp add: p demo_world_def)
  from icns_any_error_caught [OF ready_full_disk h] show ?thesis
    using f by auto
qed

text \<open>
  C10. \<open>ready\<close> asks nothing of the width and height of the source image beyond its being
  non-empty, and \<open>main\<close> does not look at them: for every such image the run returns
  normally, each file of \<open>PNG_SIZES\<close> holds a PNG of the size of its entry, the front-end
  asset is 256 by 256 pixels, and the last line printed is the final one. The container
  \<^verbatim>\<open>icon.ico\<close> is the exception: it holds the one frame of 16 by 16 pixels, not the seven
  sizes of \<open>ico_sizes\<close>. The witness is a source of 10 by 7 pixels.
\<close>

theorem no_dimension_check:
  assumes "ready E w im"
  shows "\<exists>w'. main E w = (Inr (), w') \<and>
     (\<forall>(f, n)\<in>set PNG_SIZES.
        files w' (icon_path E f) = Some (Png (scaled E (loaded E im) n)) \<and>
        image_size (scaled E (loaded E im) n) = (n, n)) \<and>
     files w' (frontend_path E) = Some (Png (scaled E (loaded E im) 256)) \<and>
     image_size (scaled E (loaded E im) 256) = (256, 256) \<and>
     files w' (icon_path E ''icon.ico'') = Some (Ico [scaled E (loaded E im) 16]) \<and>
     map image_size [scaled E (loaded E im) 16] = [(16, 16)] \<and>
     map image_size [scaled E (loaded E im) 16] \<noteq> map (\<lambda>s. (s, s)) ico_sizes \<and>
     last (stdout w') = ''Done. All icons generated from logo.png''"
proof -
  from main_ready_obtain [OF assms] obtain w6 where
    g: "generate_icns E (Suc (length (heap w))) (world_before_icns E im w) = (Inr (), w6)" and
    m: "main E w =
       (Inr (), w6\<lparr>stdout := stdout w6 @ ['''', ''Done. All icons generated from logo.png'']\<rparr>)"
    by blast
  have k: "files w6 p = files (world_before_icns E im w) p" if "p \<noteq> icon_path E ''icon.icns''" for p
    using generate_icns_files [OF that, of "Suc (length (heap w))" "world_before_icns E im w"] g
    by simp
  have i: "map image_size [scaled E (loaded E im) 16] \<noteq> map (\<lambda>s. (s, s)) ico_sizes"
    by (simp add: ico_sizes_def)
  show ?thesis
    unfolding m using i
    by (simp add: k icon_names_distinct before_icns_files PNG_SIZES_def image_size_scaled)
qed

theorem no_dimension_check_witness:
  "\<exists>w' img frame. main demo_env tiny_world = (Inr (), w') \<and>
     files w' [''home'', ''installer'', ''src-tauri'', ''icons'', ''icon.png''] = Some (Png img) \<and>
     image_size img = (512, 512) \<and> image_size tiny_logo = (10, 7) \<and>
     files w' [''home'', ''installer'', ''src-tauri'', ''icons'', ''icon.ico''] = Some (Ico [frame]) \<and>
     image_size frame = (16, 16)"
proof -
  from no_dimension_check [OF ready_tiny] show ?thesis
    by (auto simp: PNG_SIZES_def demo_icon_path special_def image_size_def tiny_logo_def)
qed

section \<open>Failures before the ICNS step\<close>

lemma bind_io_Inr_D:
  "bind_io m f w = (Inr b, w'') \<Longrightarrow> \<exists>a w'. m w = (Inr a, w') \<and> f a w' = (Inr b, w'')"
  by (auto simp: bind_io_def split: prod.splits sum.splits)

lemma Image_save_Inr_D:
  "Image_save E r fp f sz ap w = (Inr u, w') \<Longrightarrow> write_error E (normpath fp) = None"
  by (auto simp: Image_save_def write_file_def split: if_splits option.splits)

lemma for_each_Inr_D:
  "for_each body xs w = (Inr (), w') \<Longrightarrow> x \<in> set xs \<Longrightarrow> \<exists>w0 w1. body x w0 = (Inr (), w1)"
proof (induction xs arbitrary: w)
  case Nil
  then show ?case by simp
next
  case (Cons y ys)
  from Cons.prems(1) obtain w1 where
    b: "body y w = (Inr (), w1)" and r: "for_each body ys w1 = (Inr (), w')"
    by (auto split: prod.splits sum.splits)
  show ?case
  proof (cases "x = y")
    case True
    with b show ?thesis by blast
  next
    case False
    with Cons.prems(2) have "x \<in> set ys" by simp
    from Cons.IH [OF r this] show ?thesis .
  qed
qed

lemma generate_pngs_Inr_D:
  assumes "generate_pngs E s w = (Inr (), w')" and "(f, n) \<in> set PNG_SIZES"
  shows "write_error E (icon_path E f) = None"
proof -
  from for_each_Inr_D [OF assms(1) [unfolded generate_pngs_def] assms(2)]
  obtain w0 w1 where
    "bind_io (resize E s n) (\<lambda>img.
       bind_io (Image_save E img (os_path_join (SCRIPT_DIR E) [f]) PNG None []) (\<lambda>_.
       print (''  '' @ f @ '' ('' @ str n @ ''x'' @ str n @ '')''))) w0 = (Inr (), w1)"
    by auto
  then show ?thesis
    by (auto dest!: bind_io_Inr_D Image_save_Inr_D simp: icon_path_def)
qed

lemma generate_frontend_asset_Inr_D:
  assumes "generate_frontend_asset E s w = (Inr (), w')"
  shows "write_error E (frontend_path E) = None"
  using assms unfolding generate_frontend_asset_def
  by (auto dest!: bind_io_Inr_D Image_save_Inr_D simp: frontend_path_def)

lemma generate_ico_Inr_D:
  assumes "generate_ico E s w = (Inr (), w')"
  shows "write_error E (icon_path E ''icon.ico'') = None"
  using assms unfolding generate_ico_def
  by (auto dest!: bind_io_Inr_D Image_save_Inr_D simp: icon_path_def raise_def
      split: list.splits)

lemma load_source_Inr_D:
  assumes "load_source E w = (Inr s, w')"
  shows "\<exists>c im. files w (source_path E) = Some c \<and> decode E c = Inr im"
  using assms unfolding load_source_def
  by (auto dest!: bind_io_Inr_D simp: Image_open_def source_path_def
      split: if_splits option.splits sum.splits)

lemma main_Inr_D:
  assumes "os_path_exists w (SOURCE E)" and "main E w = (Inr (), w')"
  shows "\<exists>s w1 w2 w3 w4 w5.
      load_source E w = (Inr s, w1) \<and> generate_pngs E s w2 = (Inr (), w3) \<and>
      generate_frontend_asset E s w3 = (Inr (), w4) \<and> generate_ico E s w4 = (Inr (), w5)"
proof -
  from assms have "bind_io (load_source E) (\<lambda>source.
        bind_io (\<lambda>w1. print (''Source: '' @ path_str (SOURCE E) @ '' (''
                         @ str (width (heap w1 ! source)) @ ''x''
                         @ str (height (heap w1 ! source)) @ '')'') w1) (\<lambda>_.
        bind_io (print '''') (\<lambda>_.
        bind_io (generate_pngs E source) (\<lambda>_.
        bind_io (generate_frontend_asset E source) (\<lambda>_.
        bind_io (generate_ico E source) (\<lambda>_.
        bind_io (generate_icns E source) (\<lambda>_.
        bind_io (print '''') (\<lambda>_.
        print ''Done. All icons generated from logo.png'')))))))) w = (Inr (), w')"
    by (simp add: main_def)
  then show ?thesis
    by (elim bind_io_Inr_D [elim_format] exE conjE) auto
qed

lemma bind_io_Inl_D:
  "bind_io m f w = (Inl e, w'') \<Longrightarrow>
   m w = (Inl e, w'') \<or> (\<exists>a w'. m w = (Inr a, w') \<and> f a w' = (Inl e, w''))"
  by (auto simp: bind_io_def split: prod.splits sum.splits)

lemma print_never_raises: "print s w \<noteq> (Inl e, w')"
  by (simp add: print_def)

lemma generate_icns_never_raises: "generate_icns E s w \<noteq> (Inl e, w')"
  using generate_icns_returns [of E s w] by auto

lemma main_Inl_D:
  assumes "os_path_exists w (SOURCE E)" and "main E w = (Inl e, w')"
  shows "load_source E w = (Inl e, w') \<or>
     (\<exists>s w0. generate_pngs E s w0 = (Inl e, w') \<or>
        generate_frontend_asset E s w0 = (Inl e, w') \<or> generate_ico E s w0 = (Inl e, w'))"
proof -
  from assms have "bind_io (load_source E) (\<lambda>source.
        bind_io (\<lambda>w1. print (''Source: '' @ path_str (SOURCE E) @ '' (''
                         @ str (width (heap w1 ! source)) @ ''x''
                         @ str (height (heap w1 ! source)) @ '')'') w1) (\<lambda>_.
        bind_io (print '''') (\<lambda>_.
        bind_io (generate_pngs E source) (\<lambda>_.
        bind_io (generate_frontend_asset E source) (\<lambda>_.
        bind_io (generate_ico E source) (\<lambda>_.
        bind_io (generate_icns E source) (\<lambda>_.
        bind_io (print '''') (\<lambda>_.
        print ''Done. All icons generated from logo.png'')))))))) w = (Inl e, w')"
    by (simp add: main_def)
  then show ?thesis
    by (elim bind_io_Inl_D [elim_format] disjE exE conjE)
      (auto simp: print_never_raises generate_icns_never_raises)
qed

lemma exists_of_file: "files w (source_path E) = Some c \<Longrightarrow> os_path_exists w (SOURCE E)"
  by (simp add: os_path_exists_def isfile_def source_path_def)

lemma main_after_load:
  assumes "os_path_exists w (SOURCE E)" and "load_source E w = (Inr s, w1)"
  shows "main E w =
      bind_io (generate_pngs E s) (\<lambda>_.
      bind_io (generate_frontend_asset E s) (\<lambda>_.
      bind_io (generate_ico E s) (\<lambda>_.
      bind_io (generate_icns E s) (\<lambda>_.
      bind_io (print '''') (\<lambda>_.
      print ''Done. All icons generated from logo.png'')))))
        (w1\<lparr>stdout := stdout w1 @ [source_line E (heap w1 ! s), '''']\<rparr>)"
  by (simp add: main_def assms(1) bind_io_Inr [of "load_source E" w s w1, OF assms(2)]
      bind_print bind_print_fun)
    (simp add: source_line_def)

lemma generate_pngs_first_refused:
  assumes "source < length (heap w)"
    and "icon_path E ''32x32.png'' \<notin> dirs w" and "SCRIPT_DIR E \<in> dirs w"
    and "write_error E (icon_path E ''32x32.png'') = Some e"
  shows "generate_pngs E source w =
     (Inl e, w\<lparr>heap := heap w @ [scaled E (heap w ! source) 32]\<rparr>)"
proof -
  have sv: "Image_save E r (os_path_join (SCRIPT_DIR E) [''32x32.png'']) PNG None []
      (w\<lparr>heap := h\<rparr>) = (Inl e, w\<lparr>heap := h\<rparr>)" for r h
    using assms(2-)
    by (simp add: Image_save_def write_file_def isdir_def dirname_def icon_path_def [symmetric])
      (simp add: icon_path_eq special_def SCRIPT_DIR_eq butlast_append normpath_append
        norm_step_def)
  show ?thesis
    by (simp add: generate_pngs_def PNG_SIZES_def bind_io_def resize_ok sv)
qed

lemma main_load_raises:
  assumes "os_path_exists w (SOURCE E)" and "load_source E w = (Inl x, w1)"
  shows "main E w = (Inl x, w1)"
  by (simp add: main_def assms(1) bind_io_Inl [of "load_source E" w x w1, OF assms(2)])

lemma main_pngs_raise:
  assumes "os_path_exists w (SOURCE E)" and "load_source E w = (Inr s, w1)"
    and "generate_pngs E s (w1\<lparr>stdout := stdout w1 @ [source_line E (heap w1 ! s), '''']\<rparr>)
           = (Inl x, w3)"
  shows "main E w = (Inl x, w3)"
  unfolding main_after_load [OF assms(1,2)]
  by (simp add: bind_io_Inl [of "generate_pngs E s" _ x w3, OF assms(3)])

lemma main_frontend_raises:
  assumes "os_path_exists w (SOURCE E)" and "load_source E w = (Inr s, w1)"
    and "generate_pngs E s (w1\<lparr>stdout := stdout w1 @ [source_line E (heap w1 ! s), '''']\<rparr>)
           = (Inr (), w3)"
    and "generate_frontend_asset E s w3 = (Inl x, w4)"
  shows "main E w = (Inl x, w4)"
  unfolding main_after_load [OF assms(1,2)]
  by (simp add: bind_io_Inr [of "generate_pngs E s" _ "()" w3, OF assms(3)]
      bind_io_Inl [of "generate_frontend_asset E s" w3 x w4, OF assms(4)])

lemma main_ico_raises:
  assumes "os_path_exists w (SOURCE E)" and "load_source E w = (Inr s, w1)"
    and "generate_pngs E s (w1\<lparr>stdout := stdout w1 @ [source_line E (heap w1 ! s), '''']\<rparr>)
           = (Inr (), w3)"
    and "generate_frontend_asset E s w3 = (Inr (), w4)"
    and "generate_ico E s w4 = (Inl x, w5)"
  shows "main E w = (Inl x, w5)"
  unfolding main_after_load [OF assms(1,2)]
  by (simp add: bind_io_Inr [of "generate_pngs E s" _ "()" w3, OF assms(3)]
      bind_io_Inr [of "generate_frontend_asset E s" w3 "()" w4, OF assms(4)]
      bind_io_Inl [of "generate_ico E s" w4 x w5, OF assms(5)])

lemma main_first_png_refused:
  assumes "files w (source_path E) = Some c" and "decode E c = Inr im"
    and "source_path E \<notin> dirs w"
    and "icon_path E ''32x32.png'' \<notin> dirs w" and "SCRIPT_DIR E \<in> dirs w"
    and "write_error E (icon_path E ''32x32.png'') = Some e"
  shows "main E w =
     (Inl e, w\<lparr>heap := heap w @ [im, loaded E im, scaled E (loaded E im) 32],
               stdout := stdout w @ [source_line E im, '''']\<rparr>)"
proof -
  define s where "s = Suc (length (heap w))"
  define w1 where "w1 = w\<lparr>heap := heap w @ [im, loaded E im]\<rparr>"
  define w2 where "w2 = w1\<lparr>stdout := stdout w1 @ [source_line E (heap w1 ! s), '''']\<rparr>"
  have ex: "os_path_exists w (SOURCE E)"
    using assms(1) by (simp add: os_path_exists_def isfile_def source_path_def)
  have l: "load_source E w = (Inr s, w1)"
    unfolding s_def w1_def by (rule load_source_ok [OF assms(1-3)])
  have w2f: "dirs w2 = dirs w" "heap w2 = heap w @ [im, loaded E im]" "heap w2 ! s = loaded E im"
    "s < length (heap w2)"
    by (simp_all add: w2_def w1_def s_def nth_append)
  have p: "generate_pngs E s w2 = (Inl e, w2\<lparr>heap := heap w2 @ [scaled E (heap w2 ! s) 32]\<rparr>)"
    by (rule generate_pngs_first_refused) (simp_all add: w2f(1,2) s_def assms)
  have "main E w = (Inl e, w2\<lparr>heap := heap w2 @ [scaled E (heap w2 ! s) 32]\<rparr>)"
    using p unfolding w2_def by (rule main_pngs_raise [OF ex l])
  also have "w2\<lparr>heap := heap w2 @ [scaled E (heap w2 ! s) 32]\<rparr> =
      w\<lparr>heap := heap w @ [im, loaded E im, scaled E (loaded E im) 32],
        stdout := stdout w @ [source_line E im, '''']\<rparr>"
    by (simp add: w2_def w1_def s_def nth_append source_line_def loaded_def)
  finally show ?thesis .
qed

text \<open>
  C8. No step before the ICNS step recovers from a failure. If the source file exists and
  does not decode, \<open>main\<close> returns the decoder's exception in the world it started in:
  nothing was printed or written. When the source exists, an exception raised by the
  load, by the PNG block, by the front-end block or by the ICO block, each in the world
  the run reaches it in, is what \<open>main\<close> returns, in the world that block left: nothing
  after it runs. So a refused \<^verbatim>\<open>32x32.png\<close> ends the run with the files and directories it
  started with and the two lines printed before the PNG block. Conversely a normal return
  implies that the source decoded and that no write of a PNG file, of the front-end asset
  or of \<^verbatim>\<open>icon.ico\<close> was refused, and an exception returned by \<open>main\<close> is the exception of
  one of those four blocks.
\<close>

theorem fail_fast:
  "(files w (source_path E) = Some c \<and> source_path E \<notin> dirs w \<and> decode E c = Inl e \<longrightarrow>
      main E w = (Inl e, w)) \<and>
   (os_path_exists w (SOURCE E) \<longrightarrow>
      (\<forall>x w1. load_source E w = (Inl x, w1) \<longrightarrow> main E w = (Inl x, w1)) \<and>
      (\<forall>s w1 w2.
         load_source E w = (Inr s, w1) \<and>
         w2 = w1\<lparr>stdout := stdout w1 @ [source_line E (heap w1 ! s), '''']\<rparr> \<longrightarrow>
         (\<forall>x w3. generate_pngs E s w2 = (Inl x, w3) \<longrightarrow> main E w = (Inl x, w3)) \<and>
         (\<forall>w3. generate_pngs E s w2 = (Inr (), w3) \<longrightarrow>
            (\<forall>x w4. generate_frontend_asset E s w3 = (Inl x, w4) \<longrightarrow>
               main E w = (Inl x, w4)) \<and>
            (\<forall>w4. generate_frontend_asset E s w3 = (Inr (), w4) \<longrightarrow>
               (\<forall>x w5. generate_ico E s w4 = (Inl x, w5) \<longrightarrow> main E w = (Inl x, w5)))))) \<and>
   (files w (source_path E) = Some c \<and> decode E c = Inr im \<and> source_path E \<notin> dirs w \<and>
    icon_path E ''32x32.png'' \<notin> dirs w \<and> SCRIPT_DIR E \<in> dirs w \<and>
    write_error E (icon_path E ''32x32.png'') = Some e \<longrightarrow>
      main E w =
        (Inl e, w\<lparr>heap := heap w @ [im, loaded E im, scaled E (loaded E im) 32],
                  stdout := stdout w @ [source_line E im, '''']\<rparr>)) \<and>
   (os_path_exists w (SOURCE E) \<and> main E w = (Inr (), w') \<longrightarrow>
      (\<exists>c im. files w (source_path E) = Some c \<and> decode E c = Inr im) \<and>
      (\<forall>f\<in>set (map fst PNG_SIZES @ [''icon.ico'']). write_error E (icon_path E f) = None) \<and>
      write_error E (frontend_path E) = None) \<and>
   (os_path_exists w (SOURCE E) \<and> main E w = (Inl e, w') \<longrightarrow>
      load_source E w = (Inl e, w') \<or>
      (\<exists>s w0. generate_pngs E s w0 = (Inl e, w') \<or>
         generate_frontend_asset E s w0 = (Inl e, w') \<or> generate_ico E s w0 = (Inl e, w')))"
proof (intro conjI impI allI)
  assume a: "files w (source_path E) = Some c \<and> source_path E \<notin> dirs w \<and> decode E c = Inl e"
  then have l: "load_source E w = (Inl e, w)"
    using load_source_decode_error by blast
  from a have ex: "os_path_exists w (SOURCE E)" by (simp add: exists_of_file)
  show "main E w = (Inl e, w)"
    by (rule main_load_raises [OF ex l])
next
  fix x w1
  assume "os_path_exists w (SOURCE E)" and "load_source E w = (Inl x, w1)"
  then show "main E w = (Inl x, w1)" by (rule main_load_raises)
next
  fix s w1 w2 x w3
  assume "os_path_exists w (SOURCE E)"
    and "load_source E w = (Inr s, w1) \<and>
      w2 = w1\<lparr>stdout := stdout w1 @ [source_line E (heap w1 ! s), '''']\<rparr>"
    and "generate_pngs E s w2 = (Inl x, w3)"
  then show "main E w = (Inl x, w3)" using main_pngs_raise by blast
next
  fix s w1 w2 w3 x w4
  assume "os_path_exists w (SOURCE E)"
    and "load_source E w = (Inr s, w1) \<and>
      w2 = w1\<lparr>stdout := stdout w1 @ [source_line E (heap w1 ! s), '''']\<rparr>"
    and "generate_pngs E s w2 = (Inr (), w3)"
    and "generate_frontend_asset E s w3 = (Inl x, w4)"
  then show "main E w = (Inl x, w4)" using main_frontend_raises by blast
next
  fix s w1 w2 w3 w4 x w5
  assume "os_path_exists w (SOURCE E)"
    and "load_source E w = (Inr s, w1) \<and>
      w2 = w1\<lparr>stdout := stdout w1 @ [source_line E (heap w1 ! s), '''']\<rparr>"
    and "generate_pngs E s w2 = (Inr (), w3)"
    and "generate_frontend_asset E s w3 = (Inr (), w4)"
    and "generate_ico E s w4 = (Inl x, w5)"
  then show "main E w = (Inl x, w5)" using main_ico_raises by blast
next
  assume "files w (source_path E) = Some c \<and> decode E c = Inr im \<and> source_path E \<notin> dirs w \<and>
    icon_path E ''32x32.png'' \<notin> dirs w \<and> SCRIPT_DIR E \<in> dirs w \<and>
    write_error E (icon_path E ''32x32.png'') = Some e"
  then show "main E w =
        (Inl e, w\<lparr>heap := heap w @ [im, loaded E im, scaled E (loaded E im) 32],
                  stdout := stdout w @ [source_line E im, '''']\<rparr>)"
    using main_first_png_refused by blast
next
  assume a: "os_path_exists w (SOURCE E) \<and> main E w = (Inr (), w')"
  then obtain s w1 w2 w3 w4 w5 where
    l: "load_source E w = (Inr s, w1)" and p: "generate_pngs E s w2 = (Inr (), w3)" and
    f: "generate_frontend_asset E s w3 = (Inr (), w4)" and i: "generate_ico E s w4 = (Inr (), w5)"
    using main_Inr_D by blast
  show "\<exists>c im. files w (source_path E) = Some c \<and> decode E c = Inr im"
    by (rule load_source_Inr_D [OF l])
  show "\<forall>f\<in>set (map fst PNG_SIZES @ [''icon.ico'']). write_error E (icon_path E f) = None"
    using generate_pngs_Inr_D [OF p] generate_ico_Inr_D [OF i] by auto
  show "write_error E (frontend_path E) = None"
    by (rule generate_frontend_asset_Inr_D [OF f])
next
  assume "os_path_exists w (SOURCE E) \<and> main E w = (Inl e, w')"
  then show "load_source E w = (Inl e, w') \<or>
      (\<exists>s w0. generate_pngs E s w0 = (Inl e, w') \<or>
         generate_frontend_asset E s w0 = (Inl e, w') \<or> generate_ico E s w0 = (Inl e, w'))"
    using main_Inl_D by blast
qed

theorem fail_fast_witness:
  "main demo_env corrupt_world = (Inl UnidentifiedImageError, corrupt_world) \<and>
   (\<exists>w'. main readonly_env demo_world = (Inl PermissionError, w') \<and>
      files w' = files demo_world \<and> dirs w' = dirs demo_world \<and>
      stdout w' = [''Source: /home/installer/src-tauri/icons/../../../logo.png (1024x1024)'', '''']) \<and>
   os_path_exists demo_world (SOURCE locked_env) \<and>
   fst (main locked_env demo_world) \<noteq> Inr ()"
proof -
  have r: "normpath (checkout demo_env) = [''home'', ''installer'']"
    "normpath (checkout readonly_env) = [''home'', ''installer'']"
    "normpath (checkout locked_env) = [''home'', ''installer'']"
    by (simp_all add: readonly_env_def locked_env_def demo_env_def normpath_def norm_step_def)
  have sp: "source_path demo_env = [''home'', ''logo.png'']"
    "source_path readonly_env = [''home'', ''logo.png'']"
    "source_path locked_env = [''home'', ''logo.png'']"
    by (simp_all add: source_path_eq r)
  have h: "files corrupt_world (source_path demo_env) = Some (Raw [0, 1, 2]) \<and>
      source_path demo_env \<notin> dirs corrupt_world \<and>
      decode demo_env (Raw [0, 1, 2]) = Inl UnidentifiedImageError"
    unfolding sp by (simp add: corrupt_world_def demo_world_def demo_dirs_def demo_env_def)
  have one: "main demo_env corrupt_world = (Inl UnidentifiedImageError, corrupt_world)"
    using fail_fast [where w = corrupt_world and E = demo_env and c = "Raw [0, 1, 2]"
        and e = UnidentifiedImageError] h
    by blast
  have ip: "icon_path readonly_env ''32x32.png'' =
      [''home'', ''installer'', ''src-tauri'', ''icons'', ''32x32.png'']"
    "SCRIPT_DIR readonly_env = [''home'', ''installer'', ''src-tauri'', ''icons'']"
    by (simp_all add: icon_path_eq special_def SCRIPT_DIR_eq r)
  have g: "files demo_world (source_path readonly_env) = Some (Png demo_logo) \<and>
      decode readonly_env (Png demo_logo) = Inr demo_logo \<and>
      source_path readonly_env \<notin> dirs demo_world \<and>
      icon_path readonly_env ''32x32.png'' \<notin> dirs demo_world \<and>
      SCRIPT_DIR readonly_env \<in> dirs demo_world \<and>
      write_error readonly_env (icon_path readonly_env ''32x32.png'') = Some PermissionError"
    unfolding sp ip by (simp add: demo_world_def demo_dirs_def readonly_env_def demo_env_def)
  have sl: "source_line readonly_env demo_logo =
      ''Source: /home/installer/src-tauri/icons/../../../logo.png (1024x1024)''"
    by (simp add: source_line_def path_str_def SOURCE_def os_path_join_def ip str_def
        demo_logo_def)
  have two: "main readonly_env demo_world =
      (Inl PermissionError,
       demo_world\<lparr>heap := heap demo_world @
           [demo_logo, loaded readonly_env demo_logo,
            scaled readonly_env (loaded readonly_env demo_logo) 32],
         stdout := stdout demo_world @ [source_line readonly_env demo_logo, '''']\<rparr>)"
    using fail_fast [where w = demo_world and E = readonly_env and c = "Png demo_logo"
        and e = PermissionError and im = demo_logo] g
    by blast
  have ex: "os_path_exists demo_world (SOURCE locked_env)"
    by (rule exists_of_file [of _ _ "Png demo_logo"]) (simp add: sp demo_world_def)
  have lp: "icon_path locked_env ''icon.ico'' =
      [''home'', ''installer'', ''src-tauri'', ''icons'', ''icon.ico'']"
    by (simp add: icon_path_eq special_def r)
  have refused: "write_error locked_env (icon_path locked_env ''icon.ico'') \<noteq> None"
    unfolding lp by (simp add: locked_env_def)
  have three: "fst (main locked_env demo_world) \<noteq> Inr ()"
  proof
    assume "fst (main locked_env demo_world) = Inr ()"
    then have "main locked_env demo_world = (Inr (), snd (main locked_env demo_world))"
      by (metis prod.collapse)
    with fail_fast [where w = demo_world and E = locked_env
        and w' = "snd (main locked_env demo_world)"] ex
    have "write_error locked_env (icon_path locked_env ''icon.ico'') = None"
      by simp
    with refused show False by simp
  qed
  show ?thesis
    using one ex three unfolding two sl by (simp add: demo_world_def)
qed

end
